theory Spec2Isabelle
  imports Main "HOL-Library.Word"
begin

section \<open>Data model of the pi plugin\<close>

text \<open>
  The Go enumerations are \<open>uint32\<close> types whose constants are declared in the
  \<open>backend\<close>, \<open>ticketvote\<close> and \<open>pi\<close> packages. Each one is modelled by the
  constants that \<open>cmds.go\<close> names, plus a catch-all constructor standing for every
  other numeric value the Go type can hold, so that the \<open>default\<close> branches and the
  fall-through paths of the switches stay reachable.
\<close>

datatype StateT = StateUnvetted | StateVetted | StateOther nat

datatype StatusT =
  StatusUnreviewed | StatusPublic | StatusCensored | StatusArchived | StatusOther nat

datatype VoteStatusT =
  VoteStatusInvalid | VoteStatusUnauthorized | VoteStatusAuthorized | VoteStatusStarted
  | VoteStatusRejected | VoteStatusApproved | VoteStatusOther nat

datatype BillingStatusT =
  BillingStatusInvalid | BillingStatusActive | BillingStatusClosed | BillingStatusCompleted
  | BillingStatusOther nat

datatype PropStatusT =
  PropStatusInvalid | PropStatusUnvetted | PropStatusUnvettedAbandoned
  | PropStatusUnvettedCensored | PropStatusUnderReview | PropStatusVoteAuthorized
  | PropStatusVoteStarted | PropStatusRejected | PropStatusApproved | PropStatusActive
  | PropStatusCompleted | PropStatusClosed | PropStatusAbandoned | PropStatusCensored

text \<open>
  Error codes of \<open>backend.PluginError\<close>. \<open>ErrorCodeZero\<close> is the zero value of
  \<open>pi.ErrorCodeT\<close>, which \<open>convertSignatureError\<close> leaves in place when the
  signature error carries none of the two codes it knows.
\<close>

datatype ErrorCodeT =
  ErrorCodeZero | ErrorCodeTokenInvalid | ErrorCodePublicKeyInvalid
  | ErrorCodeSignatureInvalid | ErrorCodeBillingStatusInvalid
  | ErrorCodeBillingStatusChangeNotAllowed

text \<open>
  Every error the plugin code returns. A \<open>PluginError\<close> always carries the plugin id
  of the pi plugin; its human readable context is not modelled, since no decision
  depends on it. \<open>ErrCollaborator\<close> is an error handed up unchanged from a
  collaborator (the JSON decoder, the backend, the vote plugin, the blob store).
  \<open>Panic\<close> is a run-time panic of the Go program, which no caller handles.
\<close>

datatype error =
  PluginError ErrorCodeT
  | ErrRecordNotFound
  | ErrTokenNotProvided
  | ErrPropStatus StateT StatusT VoteStatusT
  | ErrPropStatusApproved BillingStatusT
  | ErrDecodeDataHint
  | ErrUnmarshalDataHint
  | ErrUnexpectedDescriptor string
  | ErrDecodeData
  | ErrDecodeDigest
  | ErrNotCoherent
  | ErrUnmarshalBillingStatus
  | ErrCollaborator string
  | Panic

text \<open>\<open>ticketvote.VoteMetadata\<close>; the plugin receives a pointer that may be nil.\<close>

record VoteMetadata =
  LinkBy :: "64 word"
  LinkTo :: string

text \<open>\<open>pi.BillingStatusChange\<close>; \<open>Timestamp\<close> is a signed 64 bit unix time.\<close>

record BillingStatusChange =
  bsc_Token :: string
  bsc_Status :: BillingStatusT
  bsc_Reason :: string
  bsc_PublicKey :: string
  bsc_Signature :: string
  bsc_Timestamp :: "64 word"
  bsc_Receipt :: string

section \<open>Transition table\<close>

text \<open>
  The package level table \<open>billingStatusChanges\<close>: a map from the current billing
  status to the set of statuses it may change to, the inner set being a map to the
  empty struct.
\<close>

definition billingStatusChanges :: "BillingStatusT \<rightharpoonup> (BillingStatusT \<rightharpoonup> unit)" where
  "billingStatusChanges =
     [BillingStatusActive \<mapsto>
        [BillingStatusClosed \<mapsto> (), BillingStatusCompleted \<mapsto> ()],
      BillingStatusClosed \<mapsto>
        [BillingStatusActive \<mapsto> (), BillingStatusCompleted \<mapsto> ()],
      BillingStatusCompleted \<mapsto>
        [BillingStatusActive \<mapsto> (), BillingStatusClosed \<mapsto> ()]]"

text \<open>
  The lookup \<open>_, ok := billingStatusChanges[currStatus][newStatus]\<close>: a missing outer
  key gives a nil map, and indexing a nil map gives \<open>ok = false\<close>.
\<close>

definition billingStatusChangeAllowed :: "BillingStatusT \<Rightarrow> BillingStatusT \<Rightarrow> bool" where
  "billingStatusChangeAllowed currStatus newStatus =
     (case billingStatusChanges currStatus of
        None \<Rightarrow> False
      | Some m \<Rightarrow> (case m newStatus of None \<Rightarrow> False | Some u \<Rightarrow> True))"

section \<open>Status derivation\<close>

text \<open>
  Modelled from the spec: \<open>isRFP\<close> is called by \<open>cmds.go\<close> but defined in another
  file of the package. The spec's data model says that vote metadata is optional and
  that a proposal is an RFP base proposal iff \<open>LinkBy\<close> is not zero.
\<close>

definition isRFP :: "VoteMetadata option \<Rightarrow> bool" where
  "isRFP vm = (case vm of None \<Rightarrow> False | Some m \<Rightarrow> LinkBy m \<noteq> 0)"

definition proposalBillingStatus ::
    "VoteStatusT \<Rightarrow> BillingStatusChange list \<Rightarrow> BillingStatusT" where
  "proposalBillingStatus vs bscs =
     (if vs \<noteq> VoteStatusApproved then BillingStatusInvalid
      else if length bscs = 0 then BillingStatusActive
      else bsc_Status (bscs ! (length bscs - 1)))"

definition proposalStatusApproved ::
    "VoteMetadata option \<Rightarrow> BillingStatusChange list \<Rightarrow> error + PropStatusT" where
  "proposalStatusApproved voteMD bscs =
     (if isRFP voteMD then Inr PropStatusApproved
      else (let bs = proposalBillingStatus VoteStatusApproved bscs in
        case bs of
          BillingStatusClosed \<Rightarrow> Inr PropStatusClosed
        | BillingStatusCompleted \<Rightarrow> Inr PropStatusCompleted
        | BillingStatusActive \<Rightarrow> Inr PropStatusActive
        | _ \<Rightarrow> Inl (ErrPropStatusApproved bs)))"

definition proposalStatus ::
    "StateT \<Rightarrow> StatusT \<Rightarrow> VoteStatusT \<Rightarrow> VoteMetadata option \<Rightarrow> BillingStatusChange list
      \<Rightarrow> error + PropStatusT" where
  "proposalStatus state status voteStatus voteMD bscs =
     (case state of
        StateUnvetted \<Rightarrow>
          (case status of
             StatusUnreviewed \<Rightarrow> Inr PropStatusUnvetted
           | StatusArchived \<Rightarrow> Inr PropStatusUnvettedAbandoned
           | StatusCensored \<Rightarrow> Inr PropStatusUnvettedCensored
           | _ \<Rightarrow> Inl (ErrPropStatus state status voteStatus))
      | StateVetted \<Rightarrow>
          (case status of
             StatusArchived \<Rightarrow> Inr PropStatusAbandoned
           | StatusCensored \<Rightarrow> Inr PropStatusCensored
           | StatusPublic \<Rightarrow>
               (case voteStatus of
                  VoteStatusUnauthorized \<Rightarrow> Inr PropStatusUnderReview
                | VoteStatusAuthorized \<Rightarrow> Inr PropStatusVoteAuthorized
                | VoteStatusStarted \<Rightarrow> Inr PropStatusVoteStarted
                | VoteStatusRejected \<Rightarrow> Inr PropStatusRejected
                | VoteStatusApproved \<Rightarrow> proposalStatusApproved voteMD bscs
                | _ \<Rightarrow> Inl (ErrPropStatus state status voteStatus))
           | _ \<Rightarrow> Inl (ErrPropStatus state status voteStatus))
      | _ \<Rightarrow> Inl (ErrPropStatus state status voteStatus))"

section \<open>Result cache\<close>

text \<open>
  \<open>cacheData\<close> holds two pointers, each nil or set. The cache is a map from the hex
  token to its entry together with the list of tokens in insertion order (a
  \<open>container/list\<close> in the source, front first).
\<close>

record cacheData =
  cd_voteStatus :: "VoteStatusT option"
  cd_proposalStatus :: "PropStatusT option"

record cache =
  cache_data :: "string \<rightharpoonup> cacheData"
  cache_entries :: "string list"

definition cacheEmpty :: cache where
  "cacheEmpty = \<lparr>cache_data = Map.empty, cache_entries = []\<rparr>"

definition cacheDataGet :: "cache \<Rightarrow> string \<Rightarrow> cacheData option" where
  "cacheDataGet c token = cache_data c token"

text \<open>
  The constant \<open>piCacheLimit\<close> is declared outside \<open>cmds.go\<close> and is the first
  argument of both set operations. When the list is empty and the limit is zero,
  \<open>entries.Front()\<close> is nil and \<open>entries.Remove(nil)\<close> dereferences it: a panic.
\<close>

definition cacheVoteStatusSet ::
    "nat \<Rightarrow> cache \<Rightarrow> string \<Rightarrow> VoteStatusT \<Rightarrow> error + cache" where
  "cacheVoteStatusSet piCacheLimit c token status =
     (case cache_data c token of
        Some d \<Rightarrow>
          Inr (c\<lparr>cache_data := (cache_data c)(token \<mapsto> d\<lparr>cd_voteStatus := Some status\<rparr>)\<rparr>)
      | None \<Rightarrow>
          (if length (cache_entries c) = piCacheLimit then
             (case cache_entries c of
                [] \<Rightarrow> Inl Panic
              | t # rest \<Rightarrow>
                  Inr \<lparr>cache_data = ((cache_data c)(t := None))
                         (token \<mapsto> \<lparr>cd_voteStatus = Some status, cd_proposalStatus = None\<rparr>),
                       cache_entries = rest @ [token]\<rparr>)
           else
             Inr \<lparr>cache_data = (cache_data c)
                    (token \<mapsto> \<lparr>cd_voteStatus = Some status, cd_proposalStatus = None\<rparr>),
                  cache_entries = cache_entries c @ [token]\<rparr>))"

definition cacheProposalStatusSet ::
    "nat \<Rightarrow> cache \<Rightarrow> string \<Rightarrow> PropStatusT \<Rightarrow> error + cache" where
  "cacheProposalStatusSet piCacheLimit c token status =
     (case cache_data c token of
        Some d \<Rightarrow>
          Inr (c\<lparr>cache_data := (cache_data c)(token \<mapsto> d\<lparr>cd_proposalStatus := Some status\<rparr>)\<rparr>)
      | None \<Rightarrow>
          (if length (cache_entries c) = piCacheLimit then
             (case cache_entries c of
                [] \<Rightarrow> Inl Panic
              | t # rest \<Rightarrow>
                  Inr \<lparr>cache_data = ((cache_data c)(t := None))
                         (token \<mapsto> \<lparr>cd_voteStatus = None, cd_proposalStatus = Some status\<rparr>),
                       cache_entries = rest @ [token]\<rparr>)
           else
             Inr \<lparr>cache_data = (cache_data c)
                    (token \<mapsto> \<lparr>cd_voteStatus = None, cd_proposalStatus = Some status\<rparr>),
                  cache_entries = cache_entries c @ [token]\<rparr>))"

text \<open>
  A sequence of cache operations, run from left to right; a panic stops the run.
\<close>

datatype cacheOp =
  OpGet string
  | OpVoteStatusSet string VoteStatusT
  | OpProposalStatusSet string PropStatusT

fun cacheApply :: "nat \<Rightarrow> cache \<Rightarrow> cacheOp \<Rightarrow> error + cache" where
  "cacheApply k c (OpGet t) = Inr c"
| "cacheApply k c (OpVoteStatusSet t v) = cacheVoteStatusSet k c t v"
| "cacheApply k c (OpProposalStatusSet t s) = cacheProposalStatusSet k c t s"

fun cacheRun :: "nat \<Rightarrow> cache \<Rightarrow> cacheOp list \<Rightarrow> error + cache" where
  "cacheRun k c [] = Inr c"
| "cacheRun k c (x # xs) =
     (case cacheApply k c x of Inl e \<Rightarrow> Inl e | Inr c' \<Rightarrow> cacheRun k c' xs)"

text \<open>The tokens that a sequence of operations sets, in order; gets set nothing.\<close>

fun setTokens :: "cacheOp list \<Rightarrow> string list" where
  "setTokens [] = []"
| "setTokens (OpGet t # xs) = setTokens xs"
| "setTokens (OpVoteStatusSet t v # xs) = t # setTokens xs"
| "setTokens (OpProposalStatusSet t s # xs) = t # setTokens xs"

text \<open>
  The shape of every cache that the two set operations build from the empty cache:
  at most \<open>k\<close> tokens in the list, none of them twice, and the map defined on
  exactly the tokens of the list.
\<close>

definition cacheInv :: "nat \<Rightarrow> cache \<Rightarrow> bool" where
  "cacheInv k c =
     (length (cache_entries c) \<le> k \<and> distinct (cache_entries c) \<and>
      dom (cache_data c) = set (cache_entries c))"

section \<open>Collaborators\<close>

text \<open>
  A Go string and a Go byte slice are both sequences of bytes, modelled by
  \<open>string\<close>. A command token is a byte slice that may be nil, hence an option;
  \<open>bytesOf\<close> reads it the way \<open>bytes.Equal\<close> and \<open>hex.EncodeToString\<close> do,
  for which nil and the empty slice are the same.
\<close>

definition bytesOf :: "string option \<Rightarrow> string" where
  "bytesOf t = (case t of None \<Rightarrow> [] | Some b \<Rightarrow> b)"

definition hexDigits :: string where
  "hexDigits = ''0123456789abcdef''"

definition hexEncodeToString :: "string \<Rightarrow> string" where
  "hexEncodeToString bs =
     concat (map (\<lambda>c. [hexDigits ! (of_char c div 16 :: nat),
                          hexDigits ! (of_char c mod 16 :: nat)]) bs)"

text \<open>
  \<open>hex.DecodeString\<close>: two hex digits of either case per byte; an odd length or a
  character that is no hex digit is an error.
\<close>

definition fromHexChar :: "char \<Rightarrow> nat option" where
  "fromHexChar c =
     (let n = (of_char c :: nat) in
      if 48 \<le> n \<and> n \<le> 57 then Some (n - 48)
      else if 97 \<le> n \<and> n \<le> 102 then Some (n - 97 + 10)
      else if 65 \<le> n \<and> n \<le> 70 then Some (n - 65 + 10)
      else None)"

fun hexDecodeString :: "string \<Rightarrow> string option" where
  "hexDecodeString [] = Some []"
| "hexDecodeString [a] = None"
| "hexDecodeString (a # b # rest) =
     (case fromHexChar a of
        None \<Rightarrow> None
      | Some x \<Rightarrow>
          (case fromHexChar b of
             None \<Rightarrow> None
           | Some y \<Rightarrow>
               (case hexDecodeString rest of
                  None \<Rightarrow> None
                | Some bs \<Rightarrow> Some (char_of (x * 16 + y) # bs))))"

text \<open>\<open>strconv.FormatUint(n, 10)\<close>.\<close>

function formatUint :: "nat \<Rightarrow> string" where
  "formatUint n =
     (if n < 10 then [hexDigits ! n] else formatUint (n div 10) @ [hexDigits ! (n mod 10)])"
  by pat_completeness auto
termination
  by (relation "measure id") auto

declare formatUint.simps [simp del]

text \<open>
  The standard library and the \<open>util\<close> and \<open>store\<close> packages are not part of the
  sources at hand; the functions of theirs that the codec calls are parameters.
  The decoders return \<open>None\<close> on an error, whose text the plugin only prints.
\<close>

text \<open>\<open>store.DataDescriptor\<close>.\<close>

record DataDescriptor =
  dd_Type :: string
  dd_Descriptor :: string

record lib =
  base64Encode :: "string \<Rightarrow> string"
  base64Decode :: "string \<Rightarrow> string option"
  utilDigest :: "string \<Rightarrow> string"
  jsonMarshalBillingStatusChange :: "BillingStatusChange \<Rightarrow> error + string"
  jsonUnmarshalBillingStatusChange :: "string \<Rightarrow> BillingStatusChange option"
  jsonMarshalDataDescriptor :: "DataDescriptor \<Rightarrow> error + string"
  jsonUnmarshalDataDescriptor :: "string \<Rightarrow> DataDescriptor option"

text \<open>\<open>store.BlobEntry\<close>, and \<open>backend.RecordRequest\<close> as far as the plugin fills it.\<close>

record BlobEntry =
  be_Digest :: string
  be_DataHint :: string
  be_Data :: string

record RecordRequest =
  rr_Token :: "string option"
  rr_Filenames :: "string list"
  rr_OmitAllFiles :: bool

text \<open>
  A \<open>backend.Record\<close>: the state and status of its record metadata and its files.
  The type of a file is left open; only \<open>voteMetadataDecode\<close> reads the files.
\<close>

record 'f BackendRecord =
  rec_State :: StateT
  rec_Status :: StatusT
  rec_Files :: "'f list"

text \<open>\<open>util.SignatureError\<close> with its error code, or any other error value.\<close>

datatype ErrorStatusT =
  ErrorStatusPublicKeyInvalid | ErrorStatusSignatureInvalid | ErrorStatusOther nat

datatype utilError = SignatureError ErrorStatusT | OtherError

text \<open>\<open>pi.SetBillingStatus\<close> and \<open>pi.SetBillingStatusReply\<close>.\<close>

record SetBillingStatus =
  sbs_Token :: string
  sbs_Status :: BillingStatusT
  sbs_Reason :: string
  sbs_PublicKey :: string
  sbs_Signature :: string

record SetBillingStatusReply =
  sbsr_Timestamp :: "64 word"
  sbsr_Receipt :: string

text \<open>
  The plugin context \<open>p\<close> and the constants of other packages: the configured
  limits, the backend, the vote plugin, the blob store (whose state has type \<open>'ts\<close>),
  the server identity and the clock. \<open>billingStatusUint\<close> is the numeric value of a
  billing status, \<open>uint64(sbs.Status)\<close>.
\<close>

record ('f, 'ts) plugin =
  pluginID :: string
  dataTypeStructure :: string
  fileNameVoteMetadata :: string
  piCacheLimit :: nat
  billingStatusChangesMax :: "32 word"
  billingStatusUint :: "BillingStatusT \<Rightarrow> nat"
  jsonUnmarshalSetBillingStatus :: "string \<Rightarrow> error + SetBillingStatus"
  tokenDecode :: "string \<Rightarrow> string option"
  verifySignature :: "string \<Rightarrow> string \<Rightarrow> string \<Rightarrow> utilError option"
  voteSummary :: "string option \<Rightarrow> error + VoteStatusT"
  backendRecords :: "RecordRequest list \<Rightarrow> error + (string \<rightharpoonup> 'f BackendRecord)"
  voteMetadataDecode :: "'f list \<Rightarrow> error + VoteMetadata option"
  blobSave :: "'ts \<Rightarrow> string option \<Rightarrow> BlobEntry \<Rightarrow> error + 'ts"
  blobsByDataDesc :: "'ts \<Rightarrow> string option \<Rightarrow> string list \<Rightarrow> error + BlobEntry list"
  signMessage :: "string \<Rightarrow> string"
  timeNowUnix :: "64 word"
  library :: lib

definition dataDescriptorBillingStatus :: "('f, 'ts) plugin \<Rightarrow> string" where
  "dataDescriptorBillingStatus p = pluginID p @ ''-billingstatus-v1''"

section \<open>Billing status codec\<close>

text \<open>
  Modelled from the spec: \<open>store.NewBlobEntry\<close> is defined in the \<open>store\<close> package.
  The spec says that the storage entry carries the descriptor tag and the payload
  and that its digest is computed over the serialized payload bytes; the text
  encodings of the three fields are the ones \<open>billingStatusDecode\<close> undoes.
\<close>

definition NewBlobEntry :: "lib \<Rightarrow> string \<Rightarrow> string \<Rightarrow> BlobEntry" where
  "NewBlobEntry l dataHint dat =
     \<lparr>be_Digest = hexEncodeToString (utilDigest l dat),
      be_DataHint = base64Encode l dataHint,
      be_Data = base64Encode l dat\<rparr>"

definition billingStatusEncode ::
    "('f, 'ts) plugin \<Rightarrow> BillingStatusChange \<Rightarrow> error + BlobEntry" where
  "billingStatusEncode p bsc =
     (case jsonMarshalBillingStatusChange (library p) bsc of
        Inl e \<Rightarrow> Inl e
      | Inr dat \<Rightarrow>
          (case jsonMarshalDataDescriptor (library p)
                  \<lparr>dd_Type = dataTypeStructure p,
                   dd_Descriptor = dataDescriptorBillingStatus p\<rparr> of
             Inl e \<Rightarrow> Inl e
           | Inr hint \<Rightarrow> Inr (NewBlobEntry (library p) hint dat)))"

definition billingStatusDecode ::
    "('f, 'ts) plugin \<Rightarrow> BlobEntry \<Rightarrow> error + BillingStatusChange" where
  "billingStatusDecode p be =
     (case base64Decode (library p) (be_DataHint be) of
        None \<Rightarrow> Inl ErrDecodeDataHint
      | Some b \<Rightarrow>
     (case jsonUnmarshalDataDescriptor (library p) b of
        None \<Rightarrow> Inl ErrUnmarshalDataHint
      | Some dd \<Rightarrow>
     (if dd_Descriptor dd \<noteq> dataDescriptorBillingStatus p
      then Inl (ErrUnexpectedDescriptor (dd_Descriptor dd))
      else
     (case base64Decode (library p) (be_Data be) of
        None \<Rightarrow> Inl ErrDecodeData
      | Some b' \<Rightarrow>
     (case hexDecodeString (be_Digest be) of
        None \<Rightarrow> Inl ErrDecodeDigest
      | Some digest \<Rightarrow>
     (if utilDigest (library p) b' \<noteq> digest then Inl ErrNotCoherent
      else
     (case jsonUnmarshalBillingStatusChange (library p) b' of
        None \<Rightarrow> Inl ErrUnmarshalBillingStatus
      | Some bsc \<Rightarrow> Inr bsc)))))))"

text \<open>The decoding loop of \<open>p.billingStatusChanges\<close>: the first bad blob ends it.\<close>

fun billingStatusDecodeLoop ::
    "('f, 'ts) plugin \<Rightarrow> BlobEntry list \<Rightarrow> BillingStatusChange list
      \<Rightarrow> error + BillingStatusChange list" where
  "billingStatusDecodeLoop p [] statusChanges = Inr statusChanges"
| "billingStatusDecodeLoop p (v # vs) statusChanges =
     (case billingStatusDecode p v of
        Inl e \<Rightarrow> Inl e
      | Inr a \<Rightarrow> billingStatusDecodeLoop p vs (statusChanges @ [a]))"

text \<open>
  The method \<open>p.billingStatusChanges\<close> (the table of the same name is above): fetch
  the blobs, decode them, and sort them by timestamp with a stable sort; the
  timestamps are compared as signed integers.
\<close>

definition p_billingStatusChanges ::
    "('f, 'ts) plugin \<Rightarrow> 'ts \<Rightarrow> string option \<Rightarrow> error + BillingStatusChange list" where
  "p_billingStatusChanges p ts token =
     (case blobsByDataDesc p ts token [dataDescriptorBillingStatus p] of
        Inl e \<Rightarrow> Inl e
      | Inr blobs \<Rightarrow>
          (case billingStatusDecodeLoop p blobs [] of
             Inl e \<Rightarrow> Inl e
           | Inr statusChanges \<Rightarrow> Inr (sort_key (\<lambda>c. sint (bsc_Timestamp c)) statusChanges)))"

definition billingStatusSave ::
    "('f, 'ts) plugin \<Rightarrow> 'ts \<Rightarrow> string option \<Rightarrow> BillingStatusChange \<Rightarrow> error + 'ts" where
  "billingStatusSave p ts token bsc =
     (case billingStatusEncode p bsc of
        Inl e \<Rightarrow> Inl e
      | Inr be \<Rightarrow> blobSave p ts token be)"

text \<open>The method \<open>p.record\<close>.\<close>

definition p_record ::
    "('f, 'ts) plugin \<Rightarrow> RecordRequest \<Rightarrow> error + 'f BackendRecord" where
  "p_record p rr =
     (if rr_Token rr = None then Inl ErrTokenNotProvided
      else
        (case backendRecords p [rr] of
           Inl e \<Rightarrow> Inl e
         | Inr reply \<Rightarrow>
             (case reply (hexEncodeToString (bytesOf (rr_Token rr))) of
                None \<Rightarrow> Inl ErrRecordNotFound
              | Some r \<Rightarrow> Inr r)))"

section \<open>Commands\<close>

definition tokenMatches :: "('f, 'ts) plugin \<Rightarrow> string option \<Rightarrow> string \<Rightarrow> error option" where
  "tokenMatches p cmdToken payloadToken =
     (case tokenDecode p payloadToken of
        None \<Rightarrow> Some (PluginError ErrorCodeTokenInvalid)
      | Some pt \<Rightarrow>
          (if bytesOf cmdToken \<noteq> pt then Some (PluginError ErrorCodeTokenInvalid)
           else None))"

definition convertSignatureError :: "utilError \<Rightarrow> error" where
  "convertSignatureError err =
     (case err of
        SignatureError ErrorStatusPublicKeyInvalid \<Rightarrow> PluginError ErrorCodePublicKeyInvalid
      | SignatureError ErrorStatusSignatureInvalid \<Rightarrow> PluginError ErrorCodeSignatureInvalid
      | _ \<Rightarrow> PluginError ErrorCodeZero)"

text \<open>The switch of \<open>cmdSetBillingStatus\<close> on the requested status.\<close>

definition verifyBillingStatus :: "BillingStatusT \<Rightarrow> error option" where
  "verifyBillingStatus st =
     (case st of
        BillingStatusActive \<Rightarrow> None
      | BillingStatusClosed \<Rightarrow> None
      | BillingStatusCompleted \<Rightarrow> None
      | _ \<Rightarrow> Some (PluginError ErrorCodeBillingStatusInvalid))"

text \<open>
  \<open>cmdSetBillingStatus\<close> returns its reply or its error together with the state of
  the blob store after the call. The reply is the \<open>SetBillingStatusReply\<close> that the
  source marshals to JSON. The length check converts \<open>len(bscs)+1\<close> to 32 bits.
\<close>

definition cmdSetBillingStatus ::
    "('f, 'ts) plugin \<Rightarrow> 'ts \<Rightarrow> string option \<Rightarrow> string
      \<Rightarrow> (error + SetBillingStatusReply) \<times> 'ts" where
  "cmdSetBillingStatus p ts token payload =
     (case jsonUnmarshalSetBillingStatus p payload of
        Inl e \<Rightarrow> (Inl e, ts)
      | Inr sbs \<Rightarrow>
     (case tokenMatches p token (sbs_Token sbs) of
        Some e \<Rightarrow> (Inl e, ts)
      | None \<Rightarrow>
     (case verifyBillingStatus (sbs_Status sbs) of
        Some e \<Rightarrow> (Inl e, ts)
      | None \<Rightarrow>
     (case verifySignature p (sbs_Signature sbs) (sbs_PublicKey sbs)
             (sbs_Token sbs @ formatUint (billingStatusUint p (sbs_Status sbs))
                @ sbs_Reason sbs) of
        Some e \<Rightarrow> (Inl (convertSignatureError e), ts)
      | None \<Rightarrow>
     (if sbs_Status sbs = BillingStatusClosed \<and> sbs_Reason sbs = []
      then (Inl (PluginError ErrorCodeBillingStatusChangeNotAllowed), ts)
      else
     (case voteSummary p token of
        Inl e \<Rightarrow> (Inl e, ts)
      | Inr vsrStatus \<Rightarrow>
     (if vsrStatus \<noteq> VoteStatusApproved
      then (Inl (PluginError ErrorCodeBillingStatusChangeNotAllowed), ts)
      else
     (case p_record p \<lparr>rr_Token = token, rr_Filenames = [fileNameVoteMetadata p],
                       rr_OmitAllFiles = False\<rparr> of
        Inl e \<Rightarrow> (Inl e, ts)
      | Inr r \<Rightarrow>
     (case voteMetadataDecode p (rec_Files r) of
        Inl e \<Rightarrow> (Inl e, ts)
      | Inr vm \<Rightarrow>
     (if isRFP vm
      then (Inl (PluginError ErrorCodeBillingStatusChangeNotAllowed), ts)
      else
     (case p_billingStatusChanges p ts token of
        Inl e \<Rightarrow> (Inl e, ts)
      | Inr bscs \<Rightarrow>
     (if (word_of_nat (length bscs + 1) :: 32 word) > billingStatusChangesMax p
      then (Inl (PluginError ErrorCodeBillingStatusChangeNotAllowed), ts)
      else
     (let currStatus = proposalBillingStatus vsrStatus bscs in
      if \<not> billingStatusChangeAllowed currStatus (sbs_Status sbs)
      then (Inl (PluginError ErrorCodeBillingStatusChangeNotAllowed), ts)
      else
     (let receipt = signMessage p (sbs_Signature sbs);
          bsc = \<lparr>bsc_Token = sbs_Token sbs,
                 bsc_Status = sbs_Status sbs,
                 bsc_Reason = sbs_Reason sbs,
                 bsc_PublicKey = sbs_PublicKey sbs,
                 bsc_Signature = sbs_Signature sbs,
                 bsc_Timestamp = timeNowUnix p,
                 bsc_Receipt = hexEncodeToString receipt\<rparr>
      in case billingStatusSave p ts token bsc of
           Inl e \<Rightarrow> (Inl e, ts)
         | Inr ts' \<Rightarrow>
             (Inr \<lparr>sbsr_Timestamp = bsc_Timestamp bsc, sbsr_Receipt = bsc_Receipt bsc\<rparr>,
              ts')))))))))))))))"

text \<open>
  The cache lookup at the head of \<open>cmdSummary\<close>: \<open>Some\<close> of the result when one of
  the two jumps to the reply is taken, \<open>None\<close> when control falls through to the
  record fetch.
\<close>

definition summaryFromCache ::
    "('f, 'ts) plugin \<Rightarrow> 'ts \<Rightarrow> string option \<Rightarrow> cacheData option
      \<Rightarrow> (error + PropStatusT) option" where
  "summaryFromCache p ts token d =
     (case d of
        None \<Rightarrow> None
      | Some dd \<Rightarrow>
          (case cd_proposalStatus dd of
             Some s \<Rightarrow> Some (Inr s)
           | None \<Rightarrow>
               (case cd_voteStatus dd of
                  None \<Rightarrow> None
                | Some v \<Rightarrow>
                    Some (case p_billingStatusChanges p ts token of
                            Inl e \<Rightarrow> Inl e
                          | Inr bscs \<Rightarrow> proposalStatusApproved None bscs))))"

text \<open>
  The fetch of the vote status and of the billing status changes in \<open>cmdSummary\<close>;
  both variables keep their initial values where the source does not assign them.
\<close>

definition summaryFetch ::
    "('f, 'ts) plugin \<Rightarrow> 'ts \<Rightarrow> string option \<Rightarrow> StateT \<Rightarrow> StatusT
      \<Rightarrow> error + (VoteStatusT \<times> BillingStatusChange list)" where
  "summaryFetch p ts token mdState mdStatus =
     (if mdState = StateVetted \<and> mdStatus = StatusPublic then
        (case voteSummary p token of
           Inl e \<Rightarrow> Inl e
         | Inr voteStatus \<Rightarrow>
             (if voteStatus = VoteStatusApproved then
                (case p_billingStatusChanges p ts token of
                   Inl e \<Rightarrow> Inl e
                 | Inr bscs \<Rightarrow> Inr (voteStatus, bscs))
              else Inr (voteStatus, [])))
      else Inr (VoteStatusInvalid, []))"

text \<open>The switch of \<open>cmdSummary\<close> that writes the cache.\<close>

definition summaryCacheWrite ::
    "nat \<Rightarrow> cache \<Rightarrow> string \<Rightarrow> PropStatusT \<Rightarrow> VoteStatusT \<Rightarrow> error + cache" where
  "summaryCacheWrite limit c tokenStr s voteStatus =
     (if s \<in> {PropStatusUnvettedAbandoned, PropStatusUnvettedCensored, PropStatusAbandoned,
               PropStatusCensored, PropStatusApproved, PropStatusRejected}
      then cacheProposalStatusSet limit c tokenStr s
      else if s \<in> {PropStatusActive, PropStatusCompleted, PropStatusClosed}
      then cacheVoteStatusSet limit c tokenStr voteStatus
      else Inr c)"

text \<open>
  \<open>cmdSummary\<close> returns the status of its reply, or its error, together with the
  cache after the call.
\<close>

definition cmdSummary ::
    "('f, 'ts) plugin \<Rightarrow> 'ts \<Rightarrow> cache \<Rightarrow> string option \<Rightarrow> (error + PropStatusT) \<times> cache" where
  "cmdSummary p ts c token =
     (let tokenStr = hexEncodeToString (bytesOf token);
          d = cacheDataGet c tokenStr
      in case summaryFromCache p ts token d of
           Some res \<Rightarrow> (res, c)
         | None \<Rightarrow>
     (case p_record p \<lparr>rr_Token = token, rr_Filenames = [fileNameVoteMetadata p],
                       rr_OmitAllFiles = False\<rparr> of
        Inl e \<Rightarrow> (Inl e, c)
      | Inr r \<Rightarrow>
     (case voteMetadataDecode p (rec_Files r) of
        Inl e \<Rightarrow> (Inl e, c)
      | Inr voteMD \<Rightarrow>
     (case summaryFetch p ts token (rec_State r) (rec_Status r) of
        Inl e \<Rightarrow> (Inl e, c)
      | Inr (voteStatus, bscs) \<Rightarrow>
     (case proposalStatus (rec_State r) (rec_Status r) voteStatus voteMD bscs of
        Inl e \<Rightarrow> (Inl e, c)
      | Inr s \<Rightarrow>
     (case summaryCacheWrite (piCacheLimit p) c tokenStr s voteStatus of
        Inl e \<Rightarrow> (Inl e, c)
      | Inr c' \<Rightarrow> (Inr s, c')))))))"

section \<open>A small instance\<close>

text \<open>
  A concrete plugin context on which the theorems below are exercised. The base64
  coding is the identity, the digest of a payload is its first byte, a billing status
  change is serialized as its reason and a data descriptor as its descriptor. A
  payload of \<open>SetBillingStatus\<close> is a status digit followed by the reason. The blob
  store is the list of the blobs saved so far, and the backend holds one vetted,
  public, approved proposal with the token \<open>''k''\<close>, in hex \<open>''6b''\<close>.
\<close>

definition exampleChange :: "string \<Rightarrow> BillingStatusChange" where
  "exampleChange reason =
     \<lparr>bsc_Token = ''6b'', bsc_Status = BillingStatusClosed, bsc_Reason = reason,
      bsc_PublicKey = ''pk'', bsc_Signature = ''sig'', bsc_Timestamp = 1700000000,
      bsc_Receipt = ''72''\<rparr>"

definition exampleLib :: lib where
  "exampleLib =
     \<lparr>base64Encode = (\<lambda>s. s),
      base64Decode = (\<lambda>s. Some s),
      utilDigest = (\<lambda>d. take 1 d),
      jsonMarshalBillingStatusChange = (\<lambda>c. Inr (bsc_Reason c)),
      jsonUnmarshalBillingStatusChange = (\<lambda>s. Some (exampleChange s)),
      jsonMarshalDataDescriptor = (\<lambda>d. Inr (dd_Descriptor d)),
      jsonUnmarshalDataDescriptor = (\<lambda>s. Some \<lparr>dd_Type = ''struct'', dd_Descriptor = s\<rparr>)\<rparr>"

definition exampleRequest :: "string \<Rightarrow> error + SetBillingStatus" where
  "exampleRequest payload =
     (case payload of
        [] \<Rightarrow> Inl (ErrCollaborator ''unexpected end of JSON input'')
      | c # reason \<Rightarrow>
          Inr \<lparr>sbs_Token = ''6b'',
               sbs_Status =
                 (if c = CHR ''1'' then BillingStatusActive
                  else if c = CHR ''2'' then BillingStatusClosed
                  else if c = CHR ''3'' then BillingStatusCompleted
                  else BillingStatusInvalid),
               sbs_Reason = reason,
               sbs_PublicKey = ''pk'',
               sbs_Signature = ''sig''\<rparr>)"

definition examplePlugin :: "(unit, BlobEntry list) plugin" where
  "examplePlugin =
     \<lparr>pluginID = ''pi'',
      dataTypeStructure = ''struct'',
      fileNameVoteMetadata = ''votemetadata.json'',
      piCacheLimit = 2,
      billingStatusChangesMax = 2,
      billingStatusUint = (\<lambda>s. if s = BillingStatusClosed then 2 else 1),
      jsonUnmarshalSetBillingStatus = exampleRequest,
      tokenDecode = hexDecodeString,
      verifySignature =
        (\<lambda>sig pk msg. if pk \<noteq> ''pk'' then Some (SignatureError ErrorStatusPublicKeyInvalid)
                       else if sig \<noteq> ''sig''
                       then Some (SignatureError ErrorStatusSignatureInvalid)
                       else None),
      voteSummary = (\<lambda>t. Inr VoteStatusApproved),
      backendRecords =
        (\<lambda>rrs. Inr [''6b'' \<mapsto> \<lparr>rec_State = StateVetted, rec_Status = StatusPublic,
                                 rec_Files = []\<rparr>]),
      voteMetadataDecode = (\<lambda>fs. Inr None),
      blobSave = (\<lambda>ts t be. Inr (ts @ [be])),
      blobsByDataDesc = (\<lambda>ts t ds. Inr ts),
      signMessage = (\<lambda>m. ''r''),
      timeNowUnix = 1700000000,
      library = exampleLib\<rparr>"

section \<open>Hex coding\<close>

lemma fromHexChar_digit: "n < 16 \<Longrightarrow> fromHexChar (hexDigits ! n) = Some n"
proof -
  assume "n < 16"
  then have "n \<in> {0,1,2,3,4,5,6,7,8,9,10,11,12,13,14,15}" by (simp; arith)
  then show ?thesis
    by (auto simp: fromHexChar_def hexDigits_def)
qed

lemma of_char_div_16: "(of_char c :: nat) div 16 < 16"
proof -
  have "(of_char c :: nat) < 256" by simp
  then show ?thesis by arith
qed

lemma hexDecode_hexEncode: "hexDecodeString (hexEncodeToString s) = Some s"
  by (induction s) (simp_all add: hexEncodeToString_def fromHexChar_digit of_char_div_16)

lemma hexEncode_k: "hexEncodeToString ''k'' = ''6b''"
  by (simp add: hexEncodeToString_def hexDigits_def)

lemma hexDecode_6b: "hexDecodeString ''6b'' = Some ''k''"
  using hexDecode_hexEncode [of "''k''"] by (simp add: hexEncode_k)

section \<open>Status derivation\<close>

text \<open>
  Claim C1. \<open>proposalStatus\<close> follows the decision table: the three unvetted rows and
  the two vetted rows that do not look at the vote, the four vote statuses of a vetted
  public proposal that map to a status directly, the approved vote, which is handed to
  \<open>proposalStatusApproved\<close>, and an error for every other combination of state, status
  and vote status.
\<close>

theorem proposalStatus_decision_table:
  "proposalStatus StateUnvetted StatusUnreviewed vs vm bscs = Inr PropStatusUnvetted \<and>
   proposalStatus StateUnvetted StatusArchived vs vm bscs = Inr PropStatusUnvettedAbandoned \<and>
   proposalStatus StateUnvetted StatusCensored vs vm bscs = Inr PropStatusUnvettedCensored \<and>
   proposalStatus StateVetted StatusArchived vs vm bscs = Inr PropStatusAbandoned \<and>
   proposalStatus StateVetted StatusCensored vs vm bscs = Inr PropStatusCensored \<and>
   proposalStatus StateVetted StatusPublic VoteStatusUnauthorized vm bscs
     = Inr PropStatusUnderReview \<and>
   proposalStatus StateVetted StatusPublic VoteStatusAuthorized vm bscs
     = Inr PropStatusVoteAuthorized \<and>
   proposalStatus StateVetted StatusPublic VoteStatusStarted vm bscs
     = Inr PropStatusVoteStarted \<and>
   proposalStatus StateVetted StatusPublic VoteStatusRejected vm bscs
     = Inr PropStatusRejected \<and>
   proposalStatus StateVetted StatusPublic VoteStatusApproved vm bscs
     = proposalStatusApproved vm bscs \<and>
   ((state, status) \<notin> {(StateUnvetted, StatusUnreviewed), (StateUnvetted, StatusArchived),
        (StateUnvetted, StatusCensored), (StateVetted, StatusArchived),
        (StateVetted, StatusCensored)} \<and>
    \<not> (state = StateVetted \<and> status = StatusPublic \<and>
       voteStatus \<in> {VoteStatusUnauthorized, VoteStatusAuthorized, VoteStatusStarted,
                      VoteStatusRejected, VoteStatusApproved})
    \<longrightarrow> proposalStatus state status voteStatus vm bscs
          = Inl (ErrPropStatus state status voteStatus))"
  by (cases state; cases status; cases voteStatus) (simp_all add: proposalStatus_def)

theorem proposalStatus_decision_table_witness:
  "proposalStatus StateUnvetted StatusPublic VoteStatusApproved None []
     = Inl (ErrPropStatus StateUnvetted StatusPublic VoteStatusApproved) \<and>
   proposalStatus StateVetted StatusPublic VoteStatusInvalid None []
     = Inl (ErrPropStatus StateVetted StatusPublic VoteStatusInvalid)"
  using proposalStatus_decision_table
          [where state = StateUnvetted and status = StatusPublic
             and voteStatus = VoteStatusApproved and vm = None and bscs = "[]"]
        proposalStatus_decision_table
          [where state = StateVetted and status = StatusPublic
             and voteStatus = VoteStatusInvalid and vm = None and bscs = "[]"]
  by simp

text \<open>
  Claim C3. For vote metadata with \<open>LinkBy\<close> other than zero, the resolution of an
  approved proposal is \<open>Approved\<close> whatever the billing history holds.
\<close>

theorem rfp_resolves_to_approved:
  "LinkBy m \<noteq> 0 \<Longrightarrow> proposalStatusApproved (Some m) bscs = Inr PropStatusApproved"
  by (simp add: proposalStatusApproved_def isRFP_def)

theorem rfp_resolves_to_approved_witness:
  "LinkBy \<lparr>LinkBy = 1700000000, LinkTo = []\<rparr> \<noteq> 0 \<and>
   proposalStatusApproved (Some \<lparr>LinkBy = 1700000000, LinkTo = []\<rparr>)
     [exampleChange ''done''] = Inr PropStatusApproved"
  using rfp_resolves_to_approved
          [of "\<lparr>LinkBy = 1700000000, LinkTo = []\<rparr>" "[exampleChange ''done'']"]
  by simp

text \<open>
  Claim C10. For a vote status other than \<open>Approved\<close> the billing status is
  \<open>BillingStatusInvalid\<close>, whatever the billing history holds.
\<close>

theorem billing_status_invalid_unless_approved:
  "vs \<noteq> VoteStatusApproved \<Longrightarrow> proposalBillingStatus vs bscs = BillingStatusInvalid"
  by (simp add: proposalBillingStatus_def)

theorem billing_status_invalid_unless_approved_witness:
  "VoteStatusStarted \<noteq> VoteStatusApproved \<and>
   proposalBillingStatus VoteStatusStarted [exampleChange ''done''] = BillingStatusInvalid"
  using billing_status_invalid_unless_approved
          [of VoteStatusStarted "[exampleChange ''done'']"]
  by simp

section \<open>Transition table\<close>

text \<open>
  Claim C5. The legal transitions are exactly the six ordered pairs of distinct
  statuses among \<open>Active\<close>, \<open>Closed\<close> and \<open>Completed\<close>; nothing is legal from or to
  \<open>Invalid\<close>.
\<close>

theorem transition_table_six_pairs:
  "billingStatusChangeAllowed BillingStatusActive BillingStatusClosed \<and>
   billingStatusChangeAllowed BillingStatusActive BillingStatusCompleted \<and>
   billingStatusChangeAllowed BillingStatusClosed BillingStatusActive \<and>
   billingStatusChangeAllowed BillingStatusClosed BillingStatusCompleted \<and>
   billingStatusChangeAllowed BillingStatusCompleted BillingStatusActive \<and>
   billingStatusChangeAllowed BillingStatusCompleted BillingStatusClosed \<and>
   billingStatusChangeAllowed f t =
     ((f, t) \<in> {(BillingStatusActive, BillingStatusClosed),
                (BillingStatusActive, BillingStatusCompleted),
                (BillingStatusClosed, BillingStatusActive),
                (BillingStatusClosed, BillingStatusCompleted),
                (BillingStatusCompleted, BillingStatusActive),
                (BillingStatusCompleted, BillingStatusClosed)}) \<and>
   \<not> billingStatusChangeAllowed BillingStatusInvalid t \<and>
   \<not> billingStatusChangeAllowed f BillingStatusInvalid"
  by (cases f; cases t) (simp_all add: billingStatusChangeAllowed_def billingStatusChanges_def)

section \<open>Setting the billing status\<close>

lemma cap_check_nat:
  "n < 2 ^ 32 \<Longrightarrow> ((word_of_nat n :: 32 word) > m) = (unat m < n)"
  by (simp add: word_less_nat_alt unat_of_nat)

lemma verifyBillingStatus_None:
  "(verifyBillingStatus st = None) =
     (st \<in> {BillingStatusActive, BillingStatusClosed, BillingStatusCompleted})"
  by (cases st) (simp_all add: verifyBillingStatus_def)

lemma verifyBillingStatus_Some:
  "st \<notin> {BillingStatusActive, BillingStatusClosed, BillingStatusCompleted} \<Longrightarrow>
     verifyBillingStatus st = Some (PluginError ErrorCodeBillingStatusInvalid)"
  by (cases st) (simp_all add: verifyBillingStatus_def)

lemma verifyBillingStatus_ok:
  "st \<in> {BillingStatusActive, BillingStatusClosed, BillingStatusCompleted} \<Longrightarrow>
     verifyBillingStatus st = None"
  by (simp add: verifyBillingStatus_None)

lemma cmdSetBillingStatus_outcome:
  "(case cmdSetBillingStatus p ts token payload of
      (Inl e, ts') \<Rightarrow> ts' = ts
    | (Inr x, ts') \<Rightarrow> True)"
  unfolding cmdSetBillingStatus_def
  by (simp add: Let_def split: sum.split option.split)

lemma cmdSetBillingStatus_no_write:
  "fst (cmdSetBillingStatus p ts token payload) = Inl e \<Longrightarrow>
     snd (cmdSetBillingStatus p ts token payload) = ts"
  using cmdSetBillingStatus_outcome [where p = p and ts = ts and token = token and payload = payload]
  by (cases "cmdSetBillingStatus p ts token payload") (auto split: sum.splits)

lemma cap_exceeded:
  "unat (m :: 32 word) < length bscs + 1 \<Longrightarrow> length bscs + 1 < 2 ^ 32
      \<Longrightarrow> (word_of_nat (length bscs + 1) :: 32 word) > m"
  using cap_check_nat [of "length bscs + 1" m] by simp

lemma cap_respected:
  assumes a: "length bscs + 1 \<le> unat (m :: 32 word)"
  shows "\<not> (word_of_nat (length bscs + 1) :: 32 word) > m"
proof -
  have "unat m < 2 ^ 32"
    using unsigned_less [of m] by simp
  with a have "length bscs + 1 < 2 ^ 32" by linarith
  with a show ?thesis
    using cap_check_nat [of "length bscs + 1" m] by simp
qed

lemma cmdSetBillingStatus_checked:
  assumes "jsonUnmarshalSetBillingStatus p payload = Inr sbs"
    and "tokenMatches p token (sbs_Token sbs) = None"
    and "sbs_Status sbs \<in> {BillingStatusActive, BillingStatusClosed, BillingStatusCompleted}"
    and "verifySignature p (sbs_Signature sbs) (sbs_PublicKey sbs)
    (sbs_Token sbs @ formatUint (billingStatusUint p (sbs_Status sbs)) @ sbs_Reason sbs) = None"
    and "\<not> (sbs_Status sbs = BillingStatusClosed \<and> sbs_Reason sbs = [])"
    and "voteSummary p token = Inr VoteStatusApproved"
    and "p_record p \<lparr>rr_Token = token, rr_Filenames = [fileNameVoteMetadata p],
    rr_OmitAllFiles = False\<rparr> = Inr r"
    and "voteMetadataDecode p (rec_Files r) = Inr vm"
    and "\<not> isRFP vm"
    and "p_billingStatusChanges p ts token = Inr bscs"
  shows "cmdSetBillingStatus p ts token payload =
     (if (word_of_nat (length bscs + 1) :: 32 word) > billingStatusChangesMax p
      then (Inl (PluginError ErrorCodeBillingStatusChangeNotAllowed), ts)
      else if \<not> billingStatusChangeAllowed (proposalBillingStatus VoteStatusApproved bscs) (sbs_Status sbs)
      then (Inl (PluginError ErrorCodeBillingStatusChangeNotAllowed), ts)
      else (case billingStatusSave p ts token
    \<lparr>bsc_Token = sbs_Token sbs, bsc_Status = sbs_Status sbs,
     bsc_Reason = sbs_Reason sbs, bsc_PublicKey = sbs_PublicKey sbs,
     bsc_Signature = sbs_Signature sbs, bsc_Timestamp = timeNowUnix p,
     bsc_Receipt = hexEncodeToString (signMessage p (sbs_Signature sbs))\<rparr> of
              Inl e \<Rightarrow> (Inl e, ts)
            | Inr ts' \<Rightarrow> (Inr \<lparr>sbsr_Timestamp = timeNowUnix p,
     sbsr_Receipt = hexEncodeToString (signMessage p (sbs_Signature sbs))\<rparr>, ts')))"
  using assms
  by (auto simp add: cmdSetBillingStatus_def Let_def verifyBillingStatus_ok
           simp del: of_nat_add of_nat_Suc split: sum.splits)

lemma tokenMatches_pass:
  "tokenDecode p s = Some (bytesOf t) \<Longrightarrow> tokenMatches p t s = None"
  by (simp add: tokenMatches_def)

lemma convertSignatureError_other:
  "ue \<noteq> SignatureError ErrorStatusPublicKeyInvalid \<Longrightarrow>
   ue \<noteq> SignatureError ErrorStatusSignatureInvalid \<Longrightarrow>
     convertSignatureError ue = PluginError ErrorCodeZero"
  by (cases ue; simp add: convertSignatureError_def split: ErrorStatusT.splits)

lemma p_record_found:
  "token \<noteq> None \<Longrightarrow>
   backendRecords p [\<lparr>rr_Token = token, rr_Filenames = fs, rr_OmitAllFiles = b\<rparr>]
     = Inr reply \<Longrightarrow>
   reply (hexEncodeToString (bytesOf token)) = Some r \<Longrightarrow>
     p_record p \<lparr>rr_Token = token, rr_Filenames = fs, rr_OmitAllFiles = b\<rparr> = Inr r"
  by (simp add: p_record_def)

lemma billingStatusDecodeLoop_ok:
  "map (billingStatusDecode p) blobs = map Inr cs \<Longrightarrow>
     billingStatusDecodeLoop p blobs acc = Inr (acc @ cs)"
proof (induction blobs arbitrary: cs acc)
  case Nil
  then show ?case by simp
next
  case (Cons b blobs)
  then obtain c cs' where "cs = c # cs'" "billingStatusDecode p b = Inr c"
    "map (billingStatusDecode p) blobs = map Inr cs'"
    by (cases cs) auto
  with Cons.IH [of cs' "acc @ [c]"] show ?case by simp
qed

lemma billingStatusDecodeLoop_fail:
  "map (billingStatusDecode p) good = map Inr cs0 \<Longrightarrow> billingStatusDecode p bad = Inl e \<Longrightarrow>
     billingStatusDecodeLoop p (good @ bad # rest) acc = Inl e"
proof (induction good arbitrary: cs0 acc)
  case Nil
  then show ?case by simp
next
  case (Cons b good)
  then obtain c cs' where "cs0 = c # cs'" "billingStatusDecode p b = Inr c"
    "map (billingStatusDecode p) good = map Inr cs'"
    by (cases cs0) auto
  with Cons.IH [of cs' "acc @ [c]"] Cons.prems(2) show ?case by simp
qed

lemma billingStatusChangeAllowed_iff:
  "billingStatusChangeAllowed f t \<longleftrightarrow>
     f \<in> {BillingStatusActive, BillingStatusClosed, BillingStatusCompleted} \<and>
     t \<in> {BillingStatusActive, BillingStatusClosed, BillingStatusCompleted} \<and> f \<noteq> t"
  by (cases f; cases t) (simp_all add: billingStatusChangeAllowed_def billingStatusChanges_def)

lemma transition_primitive:
  "billingStatusChangeAllowed (proposalBillingStatus VoteStatusApproved bscs) st =
     ((if bscs = [] then BillingStatusActive else bsc_Status (last bscs))
        \<in> {BillingStatusActive, BillingStatusClosed, BillingStatusCompleted} \<and>
      st \<in> {BillingStatusActive, BillingStatusClosed, BillingStatusCompleted} \<and>
      (if bscs = [] then BillingStatusActive else bsc_Status (last bscs)) \<noteq> st)"
  by (simp add: billingStatusChangeAllowed_iff proposalBillingStatus_def last_conv_nth)

lemma cmdSetBillingStatus_history_error:
  assumes "jsonUnmarshalSetBillingStatus p payload = Inr sbs"
    and "tokenMatches p token (sbs_Token sbs) = None"
    and "sbs_Status sbs \<in> {BillingStatusActive, BillingStatusClosed, BillingStatusCompleted}"
    and "verifySignature p (sbs_Signature sbs) (sbs_PublicKey sbs)
    (sbs_Token sbs @ formatUint (billingStatusUint p (sbs_Status sbs)) @ sbs_Reason sbs) = None"
    and "\<not> (sbs_Status sbs = BillingStatusClosed \<and> sbs_Reason sbs = [])"
    and "voteSummary p token = Inr VoteStatusApproved"
    and "p_record p \<lparr>rr_Token = token, rr_Filenames = [fileNameVoteMetadata p],
     rr_OmitAllFiles = False\<rparr> = Inr r"
    and "voteMetadataDecode p (rec_Files r) = Inr vm"
    and "\<not> isRFP vm"
    and "p_billingStatusChanges p ts token = Inl e"
  shows "cmdSetBillingStatus p ts token payload = (Inl e, ts)"
  using assms
  by (auto simp add: cmdSetBillingStatus_def Let_def verifyBillingStatus_ok)

text \<open>
  Claim C4. \<open>cmdSetBillingStatus\<close> applies its checks in the order payload, token,
  status value, signature, reason of a closing, approved vote, RFP, number of changes,
  transition; the first one that fails decides the error and the store is returned
  as it was. Every step is stated over the collaborators: the payload token must decode
  to the bytes of the command token, else \<open>TokenInvalid\<close>; a signature error maps to
  \<open>PublicKeyInvalid\<close> or \<open>SignatureInvalid\<close> by its code; the record is looked up
  under the hex token; the history is the decoded blobs in the order of their
  timestamps; the current status is that of the last change, \<open>Active\<close> if there is
  none. A blob is saved only after every check has passed, and it is the encoded
  change. The count check is stated for a history whose length plus one still fits
  32 bits.
\<close>

theorem set_billing_status_validation_order:
  "(jsonUnmarshalSetBillingStatus p payload = Inl e1 \<longrightarrow>
      cmdSetBillingStatus p ts token payload
        = (Inl e1, ts)) \<and>
   (jsonUnmarshalSetBillingStatus p payload = Inr sbs \<longrightarrow>
    (tokenDecode p (sbs_Token sbs) = None \<longrightarrow>
       cmdSetBillingStatus p ts token payload
         = (Inl (PluginError ErrorCodeTokenInvalid), ts)) \<and>
    (tokenDecode p (sbs_Token sbs) = Some pt \<and> pt \<noteq> bytesOf token \<longrightarrow>
       cmdSetBillingStatus p ts token payload
         = (Inl (PluginError ErrorCodeTokenInvalid), ts)) \<and>
    (tokenDecode p (sbs_Token sbs) = Some (bytesOf token) \<longrightarrow>
     (sbs_Status sbs \<notin> {BillingStatusActive, BillingStatusClosed, BillingStatusCompleted} \<longrightarrow>
        cmdSetBillingStatus p ts token payload
          = (Inl (PluginError ErrorCodeBillingStatusInvalid), ts)) \<and>
     (sbs_Status sbs \<in> {BillingStatusActive, BillingStatusClosed, BillingStatusCompleted} \<longrightarrow>
      (verifySignature p (sbs_Signature sbs) (sbs_PublicKey sbs)
          (sbs_Token sbs @ formatUint (billingStatusUint p (sbs_Status sbs)) @ sbs_Reason sbs)
         = Some (SignatureError ErrorStatusPublicKeyInvalid) \<longrightarrow>
         cmdSetBillingStatus p ts token payload
           = (Inl (PluginError ErrorCodePublicKeyInvalid), ts)) \<and>
      (verifySignature p (sbs_Signature sbs) (sbs_PublicKey sbs)
          (sbs_Token sbs @ formatUint (billingStatusUint p (sbs_Status sbs)) @ sbs_Reason sbs)
         = Some (SignatureError ErrorStatusSignatureInvalid) \<longrightarrow>
         cmdSetBillingStatus p ts token payload
           = (Inl (PluginError ErrorCodeSignatureInvalid), ts)) \<and>
      (verifySignature p (sbs_Signature sbs) (sbs_PublicKey sbs)
          (sbs_Token sbs @ formatUint (billingStatusUint p (sbs_Status sbs)) @ sbs_Reason sbs) = Some ue \<and>
       ue \<noteq> SignatureError ErrorStatusPublicKeyInvalid \<and>
       ue \<noteq> SignatureError ErrorStatusSignatureInvalid \<longrightarrow>
         cmdSetBillingStatus p ts token payload
           = (Inl (PluginError ErrorCodeZero), ts)) \<and>
      (verifySignature p (sbs_Signature sbs) (sbs_PublicKey sbs)
          (sbs_Token sbs @ formatUint (billingStatusUint p (sbs_Status sbs)) @ sbs_Reason sbs) = None \<longrightarrow>
       (sbs_Status sbs = BillingStatusClosed \<and> sbs_Reason sbs = [] \<longrightarrow>
          cmdSetBillingStatus p ts token payload
            = (Inl (PluginError ErrorCodeBillingStatusChangeNotAllowed), ts)) \<and>
       (\<not> (sbs_Status sbs = BillingStatusClosed \<and> sbs_Reason sbs = []) \<longrightarrow>
        (voteSummary p token = Inl e2 \<longrightarrow>
           cmdSetBillingStatus p ts token payload
             = (Inl e2, ts)) \<and>
        (voteSummary p token = Inr vs \<and> vs \<noteq> VoteStatusApproved \<longrightarrow>
           cmdSetBillingStatus p ts token payload
             = (Inl (PluginError ErrorCodeBillingStatusChangeNotAllowed), ts)) \<and>
        (voteSummary p token = Inr VoteStatusApproved \<longrightarrow>
         (token = None \<longrightarrow>
            cmdSetBillingStatus p ts token payload
              = (Inl ErrTokenNotProvided, ts)) \<and>
         (token \<noteq> None \<longrightarrow>
          (backendRecords p
              [\<lparr>rr_Token = token, rr_Filenames = [fileNameVoteMetadata p],
               rr_OmitAllFiles = False\<rparr>] = Inl e3 \<longrightarrow>
             cmdSetBillingStatus p ts token payload
               = (Inl e3, ts)) \<and>
          (backendRecords p
              [\<lparr>rr_Token = token, rr_Filenames = [fileNameVoteMetadata p],
               rr_OmitAllFiles = False\<rparr>] = Inr reply \<longrightarrow>
           (reply (hexEncodeToString (bytesOf token)) = None \<longrightarrow>
              cmdSetBillingStatus p ts token payload
                = (Inl ErrRecordNotFound, ts)) \<and>
           (reply (hexEncodeToString (bytesOf token)) = Some r \<longrightarrow>
            (voteMetadataDecode p (rec_Files r) = Inl e4 \<longrightarrow>
               cmdSetBillingStatus p ts token payload
                 = (Inl e4, ts)) \<and>
            (voteMetadataDecode p (rec_Files r) = Inr vm \<longrightarrow>
             (isRFP vm \<longrightarrow>
                cmdSetBillingStatus p ts token payload
                  = (Inl (PluginError ErrorCodeBillingStatusChangeNotAllowed), ts)) \<and>
             (\<not> isRFP vm \<longrightarrow>
              (blobsByDataDesc p ts token [dataDescriptorBillingStatus p] = Inl e5 \<longrightarrow>
                 cmdSetBillingStatus p ts token payload
                   = (Inl e5, ts)) \<and>
              (blobsByDataDesc p ts token [dataDescriptorBillingStatus p] = Inr blobs \<longrightarrow>
               (blobs = good @ bad # rest \<and>
                map (billingStatusDecode p) good = map Inr cs0 \<and>
                billingStatusDecode p bad = Inl e6 \<longrightarrow>
                  cmdSetBillingStatus p ts token payload
                    = (Inl e6, ts)) \<and>
               (map (billingStatusDecode p) blobs = map Inr cs \<longrightarrow>
                (bscs = sort_key (\<lambda>c. sint (bsc_Timestamp c)) cs \<longrightarrow>
                 (unat (billingStatusChangesMax p) < length bscs + 1 \<and> length bscs + 1 < 2 ^ 32 \<longrightarrow>
                    cmdSetBillingStatus p ts token payload
                      = (Inl (PluginError ErrorCodeBillingStatusChangeNotAllowed), ts)) \<and>
                 (length bscs + 1 \<le> unat (billingStatusChangesMax p) \<longrightarrow>
                  (currStatus = (if bscs = [] then BillingStatusActive else bsc_Status (last bscs)) \<longrightarrow>
                   (currStatus \<notin> {BillingStatusActive, BillingStatusClosed, BillingStatusCompleted} \<or> currStatus = sbs_Status sbs \<longrightarrow>
                      cmdSetBillingStatus p ts token payload
                        = (Inl (PluginError ErrorCodeBillingStatusChangeNotAllowed), ts)) \<and>
                   (currStatus \<in> {BillingStatusActive, BillingStatusClosed, BillingStatusCompleted} \<and> currStatus \<noteq> sbs_Status sbs \<longrightarrow>
                    (jsonMarshalBillingStatusChange (library p)
                        \<lparr>bsc_Token = sbs_Token sbs, bsc_Status = sbs_Status sbs,
                         bsc_Reason = sbs_Reason sbs, bsc_PublicKey = sbs_PublicKey sbs,
                         bsc_Signature = sbs_Signature sbs, bsc_Timestamp = timeNowUnix p,
                         bsc_Receipt = hexEncodeToString (signMessage p (sbs_Signature sbs))\<rparr> = Inl e7 \<longrightarrow>
                       cmdSetBillingStatus p ts token payload
                         = (Inl e7, ts)) \<and>
                    (jsonMarshalBillingStatusChange (library p)
                        \<lparr>bsc_Token = sbs_Token sbs, bsc_Status = sbs_Status sbs,
                         bsc_Reason = sbs_Reason sbs, bsc_PublicKey = sbs_PublicKey sbs,
                         bsc_Signature = sbs_Signature sbs, bsc_Timestamp = timeNowUnix p,
                         bsc_Receipt = hexEncodeToString (signMessage p (sbs_Signature sbs))\<rparr> = Inr dat \<longrightarrow>
                     (jsonMarshalDataDescriptor (library p)
                         \<lparr>dd_Type = dataTypeStructure p,
                          dd_Descriptor = dataDescriptorBillingStatus p\<rparr> = Inl e8 \<longrightarrow>
                        cmdSetBillingStatus p ts token payload
                          = (Inl e8, ts)) \<and>
                     (jsonMarshalDataDescriptor (library p)
                         \<lparr>dd_Type = dataTypeStructure p,
                          dd_Descriptor = dataDescriptorBillingStatus p\<rparr> = Inr hint \<longrightarrow>
                      (blobSave p ts token (NewBlobEntry (library p) hint dat) = Inl e9 \<longrightarrow>
                         cmdSetBillingStatus p ts token payload
                           = (Inl e9, ts)) \<and>
                      (blobSave p ts token (NewBlobEntry (library p) hint dat) = Inr ts' \<longrightarrow>
                         cmdSetBillingStatus p ts token payload
                           = (Inr \<lparr>sbsr_Timestamp = timeNowUnix p,
                           sbsr_Receipt = hexEncodeToString (signMessage p (sbs_Signature sbs))\<rparr>, ts'))))))))))))))))))))) \<and>
   (fst (cmdSetBillingStatus p ts token payload) = Inl e \<longrightarrow>
      snd (cmdSetBillingStatus p ts token payload) = ts)"
proof (intro conjI impI, goal_cases)
  case 1
  then show ?case
    by (auto simp add: cmdSetBillingStatus_def Let_def tokenMatches_def p_record_def verifyBillingStatus_Some verifyBillingStatus_ok convertSignatureError_def)
next
  case 2
  then show ?case
    by (auto simp add: cmdSetBillingStatus_def Let_def tokenMatches_def p_record_def verifyBillingStatus_Some verifyBillingStatus_ok convertSignatureError_def)
next
  case 3
  then show ?case
    by (auto simp add: cmdSetBillingStatus_def Let_def tokenMatches_def p_record_def verifyBillingStatus_Some verifyBillingStatus_ok convertSignatureError_def)
next
  case 4
  then show ?case
    by (auto simp add: cmdSetBillingStatus_def Let_def tokenMatches_def p_record_def verifyBillingStatus_Some verifyBillingStatus_ok convertSignatureError_def)
next
  case 5
  then show ?case
    by (auto simp add: cmdSetBillingStatus_def Let_def tokenMatches_def p_record_def verifyBillingStatus_Some verifyBillingStatus_ok convertSignatureError_def)
next
  case 6
  then show ?case
    by (auto simp add: cmdSetBillingStatus_def Let_def tokenMatches_def p_record_def verifyBillingStatus_Some verifyBillingStatus_ok convertSignatureError_def)
next
  case 7
  then show ?case
    by (auto simp add: cmdSetBillingStatus_def Let_def tokenMatches_def p_record_def verifyBillingStatus_Some verifyBillingStatus_ok convertSignatureError_other)
next
  case 8
  then show ?case
    by (auto simp add: cmdSetBillingStatus_def Let_def tokenMatches_def p_record_def verifyBillingStatus_Some verifyBillingStatus_ok convertSignatureError_def)
next
  case 9
  then show ?case
    by (auto simp add: cmdSetBillingStatus_def Let_def tokenMatches_def p_record_def verifyBillingStatus_Some verifyBillingStatus_ok convertSignatureError_def)
next
  case 10
  then show ?case
    by (auto simp add: cmdSetBillingStatus_def Let_def tokenMatches_def p_record_def verifyBillingStatus_Some verifyBillingStatus_ok convertSignatureError_def)
next
  case 11
  then show ?case
    by (auto simp add: cmdSetBillingStatus_def Let_def tokenMatches_def p_record_def verifyBillingStatus_Some verifyBillingStatus_ok convertSignatureError_def)
next
  case 12
  then show ?case
    by (auto simp add: cmdSetBillingStatus_def Let_def tokenMatches_def p_record_def verifyBillingStatus_Some verifyBillingStatus_ok convertSignatureError_def)
next
  case 13
  then show ?case
    by (auto simp add: cmdSetBillingStatus_def Let_def tokenMatches_def p_record_def verifyBillingStatus_Some verifyBillingStatus_ok convertSignatureError_def)
next
  case 14
  then show ?case
    by (auto simp add: cmdSetBillingStatus_def Let_def tokenMatches_def p_record_def verifyBillingStatus_Some verifyBillingStatus_ok convertSignatureError_def)
next
  case 15
  then show ?case
    by (auto simp add: cmdSetBillingStatus_def Let_def tokenMatches_def p_record_def verifyBillingStatus_Some verifyBillingStatus_ok convertSignatureError_def)
next
  case 16
  note tm = tokenMatches_pass [OF 16(2)]
  note rc = p_record_found [OF 16(7) 16(8) 16(9)]
  have h: "p_billingStatusChanges p ts token = Inl e5"
    using 16(12) by (simp add: p_billingStatusChanges_def)
  show ?case
    by (rule cmdSetBillingStatus_history_error [OF 16(1) tm 16(3) 16(4) 16(5) 16(6) rc 16(10) 16(11) h])
next
  case 17
  note tm = tokenMatches_pass [OF 17(2)]
  note rc = p_record_found [OF 17(7) 17(8) 17(9)]
  have h: "p_billingStatusChanges p ts token = Inl e6"
    using 17(13) 17(12)
    by (auto simp add: p_billingStatusChanges_def billingStatusDecodeLoop_fail)
  show ?case
    by (rule cmdSetBillingStatus_history_error [OF 17(1) tm 17(3) 17(4) 17(5) 17(6) rc 17(10) 17(11) h])
next
  case 18
  note tm = tokenMatches_pass [OF 18(2)]
  note rc = p_record_found [OF 18(7) 18(8) 18(9)]
  have h: "p_billingStatusChanges p ts token = Inr bscs"
    using 18(12) 18(14)
    by (simp add: p_billingStatusChanges_def billingStatusDecodeLoop_ok [OF 18(13)])
  note chk = cmdSetBillingStatus_checked [OF 18(1) tm 18(3) 18(4) 18(5) 18(6) rc 18(10) 18(11) h]
  from 18(15) have "(word_of_nat (length bscs + 1) :: 32 word) > billingStatusChangesMax p"
    by (intro cap_exceeded) simp_all
  then show ?case
    by (simp only: chk if_True)
next
  case 19
  note tm = tokenMatches_pass [OF 19(2)]
  note rc = p_record_found [OF 19(7) 19(8) 19(9)]
  have h: "p_billingStatusChanges p ts token = Inr bscs"
    using 19(12) 19(14)
    by (simp add: p_billingStatusChanges_def billingStatusDecodeLoop_ok [OF 19(13)])
  note chk = cmdSetBillingStatus_checked [OF 19(1) tm 19(3) 19(4) 19(5) 19(6) rc 19(10) 19(11) h]
  from 19(15) have cap: "\<not> (word_of_nat (length bscs + 1) :: 32 word) > billingStatusChangesMax p"
    by (rule cap_respected)
  have tr: "\<not> billingStatusChangeAllowed (proposalBillingStatus VoteStatusApproved bscs) (sbs_Status sbs)"
    using 19(16) 19(17) by (auto simp add: transition_primitive)
  from cap tr show ?case
    by (simp only: chk if_True if_False simp_thms)
next
  case 20
  note tm = tokenMatches_pass [OF 20(2)]
  note rc = p_record_found [OF 20(7) 20(8) 20(9)]
  have h: "p_billingStatusChanges p ts token = Inr bscs"
    using 20(12) 20(14)
    by (simp add: p_billingStatusChanges_def billingStatusDecodeLoop_ok [OF 20(13)])
  note chk = cmdSetBillingStatus_checked [OF 20(1) tm 20(3) 20(4) 20(5) 20(6) rc 20(10) 20(11) h]
  from 20(15) have cap: "\<not> (word_of_nat (length bscs + 1) :: 32 word) > billingStatusChangesMax p"
    by (rule cap_respected)
  have sv: "billingStatusSave p ts token
    \<lparr>bsc_Token = sbs_Token sbs, bsc_Status = sbs_Status sbs,
     bsc_Reason = sbs_Reason sbs, bsc_PublicKey = sbs_PublicKey sbs,
     bsc_Signature = sbs_Signature sbs, bsc_Timestamp = timeNowUnix p,
     bsc_Receipt = hexEncodeToString (signMessage p (sbs_Signature sbs))\<rparr>
    = Inl e7"
    using 20(18)
    by (simp add: billingStatusSave_def billingStatusEncode_def)
  have tr: "billingStatusChangeAllowed (proposalBillingStatus VoteStatusApproved bscs) (sbs_Status sbs)"
    using 20(16) 20(17) 20(3) by (simp add: transition_primitive)
  from cap tr sv show ?case
    by (simp only: chk if_True if_False simp_thms sum.case)
next
  case 21
  note tm = tokenMatches_pass [OF 21(2)]
  note rc = p_record_found [OF 21(7) 21(8) 21(9)]
  have h: "p_billingStatusChanges p ts token = Inr bscs"
    using 21(12) 21(14)
    by (simp add: p_billingStatusChanges_def billingStatusDecodeLoop_ok [OF 21(13)])
  note chk = cmdSetBillingStatus_checked [OF 21(1) tm 21(3) 21(4) 21(5) 21(6) rc 21(10) 21(11) h]
  from 21(15) have cap: "\<not> (word_of_nat (length bscs + 1) :: 32 word) > billingStatusChangesMax p"
    by (rule cap_respected)
  have sv: "billingStatusSave p ts token
    \<lparr>bsc_Token = sbs_Token sbs, bsc_Status = sbs_Status sbs,
     bsc_Reason = sbs_Reason sbs, bsc_PublicKey = sbs_PublicKey sbs,
     bsc_Signature = sbs_Signature sbs, bsc_Timestamp = timeNowUnix p,
     bsc_Receipt = hexEncodeToString (signMessage p (sbs_Signature sbs))\<rparr>
    = Inl e8"
    using 21(18) 21(19)
    by (simp add: billingStatusSave_def billingStatusEncode_def)
  have tr: "billingStatusChangeAllowed (proposalBillingStatus VoteStatusApproved bscs) (sbs_Status sbs)"
    using 21(16) 21(17) 21(3) by (simp add: transition_primitive)
  from cap tr sv show ?case
    by (simp only: chk if_True if_False simp_thms sum.case)
next
  case 22
  note tm = tokenMatches_pass [OF 22(2)]
  note rc = p_record_found [OF 22(7) 22(8) 22(9)]
  have h: "p_billingStatusChanges p ts token = Inr bscs"
    using 22(12) 22(14)
    by (simp add: p_billingStatusChanges_def billingStatusDecodeLoop_ok [OF 22(13)])
  note chk = cmdSetBillingStatus_checked [OF 22(1) tm 22(3) 22(4) 22(5) 22(6) rc 22(10) 22(11) h]
  from 22(15) have cap: "\<not> (word_of_nat (length bscs + 1) :: 32 word) > billingStatusChangesMax p"
    by (rule cap_respected)
  have sv: "billingStatusSave p ts token
    \<lparr>bsc_Token = sbs_Token sbs, bsc_Status = sbs_Status sbs,
     bsc_Reason = sbs_Reason sbs, bsc_PublicKey = sbs_PublicKey sbs,
     bsc_Signature = sbs_Signature sbs, bsc_Timestamp = timeNowUnix p,
     bsc_Receipt = hexEncodeToString (signMessage p (sbs_Signature sbs))\<rparr>
    = Inl e9"
    using 22(18) 22(19) 22(20)
    by (simp add: billingStatusSave_def billingStatusEncode_def)
  have tr: "billingStatusChangeAllowed (proposalBillingStatus VoteStatusApproved bscs) (sbs_Status sbs)"
    using 22(16) 22(17) 22(3) by (simp add: transition_primitive)
  from cap tr sv show ?case
    by (simp only: chk if_True if_False simp_thms sum.case)
next
  case 23
  note tm = tokenMatches_pass [OF 23(2)]
  note rc = p_record_found [OF 23(7) 23(8) 23(9)]
  have h: "p_billingStatusChanges p ts token = Inr bscs"
    using 23(12) 23(14)
    by (simp add: p_billingStatusChanges_def billingStatusDecodeLoop_ok [OF 23(13)])
  note chk = cmdSetBillingStatus_checked [OF 23(1) tm 23(3) 23(4) 23(5) 23(6) rc 23(10) 23(11) h]
  from 23(15) have cap: "\<not> (word_of_nat (length bscs + 1) :: 32 word) > billingStatusChangesMax p"
    by (rule cap_respected)
  have sv: "billingStatusSave p ts token
    \<lparr>bsc_Token = sbs_Token sbs, bsc_Status = sbs_Status sbs,
     bsc_Reason = sbs_Reason sbs, bsc_PublicKey = sbs_PublicKey sbs,
     bsc_Signature = sbs_Signature sbs, bsc_Timestamp = timeNowUnix p,
     bsc_Receipt = hexEncodeToString (signMessage p (sbs_Signature sbs))\<rparr>
    = Inr ts'"
    using 23(18) 23(19) 23(20)
    by (simp add: billingStatusSave_def billingStatusEncode_def)
  have tr: "billingStatusChangeAllowed (proposalBillingStatus VoteStatusApproved bscs) (sbs_Status sbs)"
    using 23(16) 23(17) 23(3) by (simp add: transition_primitive)
  from cap tr sv show ?case
    by (simp only: chk if_True if_False simp_thms sum.case)
next
  case 24
  then show ?case by (rule cmdSetBillingStatus_no_write)
qed

section \<open>The small instance at work\<close>

lemma hexEncode_d: "hexEncodeToString ''d'' = ''64''"
  by (simp add: hexEncodeToString_def hexDigits_def)

lemma hexDecode_64: "hexDecodeString ''64'' = Some ''d''"
  using hexDecode_hexEncode [of "''d''"] by (simp add: hexEncode_d)

lemma hexEncode_m: "hexEncodeToString ''m'' = ''6d''"
  by (simp add: hexEncodeToString_def hexDigits_def)

lemma hexDecode_6d: "hexDecodeString ''6d'' = Some ''m''"
  using hexDecode_hexEncode [of "''m''"] by (simp add: hexEncode_m)

lemma hexEncode_r: "hexEncodeToString ''r'' = ''72''"
  by (simp add: hexEncodeToString_def hexDigits_def)

lemma example_tokenMatches: "tokenMatches examplePlugin (Some ''k'') ''6b'' = None"
  by (simp add: tokenMatches_def examplePlugin_def hexDecode_6b bytesOf_def
        del: hexDecodeString.simps)

lemma example_record:
  "p_record examplePlugin
     \<lparr>rr_Token = Some ''k'', rr_Filenames = [fileNameVoteMetadata examplePlugin],
      rr_OmitAllFiles = False\<rparr>
   = Inr \<lparr>rec_State = StateVetted, rec_Status = StatusPublic, rec_Files = []\<rparr>"
  by (simp add: p_record_def examplePlugin_def bytesOf_def hexEncode_k)

lemma example_decode_done:
  "billingStatusDecode examplePlugin
     \<lparr>be_Digest = ''64'', be_DataHint = ''pi-billingstatus-v1'', be_Data = ''done''\<rparr>
   = Inr (exampleChange ''done'')"
  by (simp add: billingStatusDecode_def examplePlugin_def exampleLib_def hexDecode_64
        dataDescriptorBillingStatus_def exampleChange_def del: hexDecodeString.simps)

lemma example_decode_more:
  "billingStatusDecode examplePlugin
     \<lparr>be_Digest = ''6d'', be_DataHint = ''pi-billingstatus-v1'', be_Data = ''more''\<rparr>
   = Inr (exampleChange ''more'')"
  by (simp add: billingStatusDecode_def examplePlugin_def exampleLib_def hexDecode_6d
        dataDescriptorBillingStatus_def exampleChange_def del: hexDecodeString.simps)

lemma example_history_empty:
  "p_billingStatusChanges examplePlugin [] (Some ''k'') = Inr []"
  by (simp add: p_billingStatusChanges_def examplePlugin_def)

lemma example_history_one:
  "p_billingStatusChanges examplePlugin
     [\<lparr>be_Digest = ''64'', be_DataHint = ''pi-billingstatus-v1'', be_Data = ''done''\<rparr>]
     (Some ''k'')
   = Inr [exampleChange ''done'']"
proof -
  have "blobsByDataDesc examplePlugin
     [\<lparr>be_Digest = ''64'', be_DataHint = ''pi-billingstatus-v1'', be_Data = ''done''\<rparr>]
     (Some ''k'') [dataDescriptorBillingStatus examplePlugin]
    = Inr [\<lparr>be_Digest = ''64'', be_DataHint = ''pi-billingstatus-v1'', be_Data = ''done''\<rparr>]"
    by (simp add: examplePlugin_def)
  then show ?thesis
    by (simp add: p_billingStatusChanges_def example_decode_done)
qed

lemma example_history_two:
  "p_billingStatusChanges examplePlugin
     [\<lparr>be_Digest = ''64'', be_DataHint = ''pi-billingstatus-v1'', be_Data = ''done''\<rparr>,
      \<lparr>be_Digest = ''6d'', be_DataHint = ''pi-billingstatus-v1'', be_Data = ''more''\<rparr>]
     (Some ''k'')
   = Inr [exampleChange ''done'', exampleChange ''more'']"
proof -
  have "blobsByDataDesc examplePlugin
     [\<lparr>be_Digest = ''64'', be_DataHint = ''pi-billingstatus-v1'', be_Data = ''done''\<rparr>,
      \<lparr>be_Digest = ''6d'', be_DataHint = ''pi-billingstatus-v1'', be_Data = ''more''\<rparr>]
     (Some ''k'') [dataDescriptorBillingStatus examplePlugin]
    = Inr [\<lparr>be_Digest = ''64'', be_DataHint = ''pi-billingstatus-v1'', be_Data = ''done''\<rparr>,
      \<lparr>be_Digest = ''6d'', be_DataHint = ''pi-billingstatus-v1'', be_Data = ''more''\<rparr>]"
    by (simp add: examplePlugin_def)
  then show ?thesis
    by (simp add: p_billingStatusChanges_def example_decode_done example_decode_more
          exampleChange_def)
qed

lemma example_save:
  "billingStatusSave examplePlugin [] (Some ''k'') (exampleChange ''done'')
   = Inr [\<lparr>be_Digest = ''64'', be_DataHint = ''pi-billingstatus-v1'', be_Data = ''done''\<rparr>]"
  by (simp add: billingStatusSave_def billingStatusEncode_def NewBlobEntry_def examplePlugin_def
        exampleLib_def exampleChange_def dataDescriptorBillingStatus_def hexEncode_d)

lemma example_request_closed:
  "jsonUnmarshalSetBillingStatus examplePlugin (CHR ''2'' # reason)
   = Inr \<lparr>sbs_Token = ''6b'', sbs_Status = BillingStatusClosed, sbs_Reason = reason,
          sbs_PublicKey = ''pk'', sbs_Signature = ''sig''\<rparr>"
  by (simp add: examplePlugin_def exampleRequest_def)

lemma example_request_active:
  "jsonUnmarshalSetBillingStatus examplePlugin (CHR ''1'' # reason)
   = Inr \<lparr>sbs_Token = ''6b'', sbs_Status = BillingStatusActive, sbs_Reason = reason,
          sbs_PublicKey = ''pk'', sbs_Signature = ''sig''\<rparr>"
  by (simp add: examplePlugin_def exampleRequest_def)

lemma example_signature: "verifySignature examplePlugin ''sig'' ''pk'' msg = None"
  by (simp add: examplePlugin_def)

lemma example_vote: "voteSummary examplePlugin t = Inr VoteStatusApproved"
  by (simp add: examplePlugin_def)

lemma example_voteMetadata: "voteMetadataDecode examplePlugin fs = Inr None"
  by (simp add: examplePlugin_def)

lemma example_max: "unat (billingStatusChangesMax examplePlugin) = 2"
  by (simp add: examplePlugin_def)

lemma example_now: "timeNowUnix examplePlugin = 1700000000"
  by (simp add: examplePlugin_def)

lemma example_receipt: "hexEncodeToString (signMessage examplePlugin s) = ''72''"
  by (simp add: examplePlugin_def hexEncode_r)

lemma example_cache_miss: "cacheDataGet cacheEmpty t = None"
  by (simp add: cacheDataGet_def cacheEmpty_def)

lemma example_limit: "piCacheLimit examplePlugin = 2"
  by (simp add: examplePlugin_def)

lemma example_library: "library examplePlugin = exampleLib"
  by (simp add: examplePlugin_def)

lemma example_dataType: "dataTypeStructure examplePlugin = ''struct''"
  by (simp add: examplePlugin_def)

lemma example_descriptor: "dataDescriptorBillingStatus examplePlugin = ''pi-billingstatus-v1''"
  by (simp add: dataDescriptorBillingStatus_def examplePlugin_def)

lemma example_encode:
  "billingStatusEncode examplePlugin (exampleChange ''done'')
   = Inr \<lparr>be_Digest = ''64'', be_DataHint = ''pi-billingstatus-v1'', be_Data = ''done''\<rparr>"
  by (simp add: billingStatusEncode_def NewBlobEntry_def example_library example_descriptor
        exampleLib_def exampleChange_def hexEncode_d)

lemma example_summary_approved:
  "cmdSummary examplePlugin [] cacheEmpty (Some ''k'')
   = (Inr PropStatusActive,
      \<lparr>cache_data = [''6b'' \<mapsto> \<lparr>cd_voteStatus = Some VoteStatusApproved,
                                  cd_proposalStatus = None\<rparr>],
       cache_entries = [''6b'']\<rparr>)"
  by (simp add: cmdSummary_def Let_def bytesOf_def hexEncode_k example_cache_miss
        summaryFromCache_def example_record example_voteMetadata summaryFetch_def example_vote
        example_history_empty proposalStatus_def proposalStatusApproved_def isRFP_def
        cacheDataGet_def
        proposalBillingStatus_def summaryCacheWrite_def example_limit cacheVoteStatusSet_def
        cacheEmpty_def)

lemma example_summary_rejected:
  "cmdSummary (examplePlugin\<lparr>voteSummary := \<lambda>t. Inr VoteStatusRejected\<rparr>) [] cacheEmpty
     (Some ''k'')
   = (Inr PropStatusRejected,
      \<lparr>cache_data = [''6b'' \<mapsto> \<lparr>cd_voteStatus = None,
                                  cd_proposalStatus = Some PropStatusRejected\<rparr>],
       cache_entries = [''6b'']\<rparr>)"
  by (simp add: cmdSummary_def Let_def bytesOf_def hexEncode_k example_cache_miss
        summaryFromCache_def p_record_def summaryFetch_def examplePlugin_def
        proposalStatus_def summaryCacheWrite_def cacheProposalStatusSet_def cacheEmpty_def
        cacheDataGet_def)

lemma example_summary_started:
  "cmdSummary (examplePlugin\<lparr>voteSummary := \<lambda>t. Inr VoteStatusStarted\<rparr>) [] cacheEmpty
     (Some ''k'')
   = (Inr PropStatusVoteStarted, cacheEmpty)"
  by (simp add: cmdSummary_def Let_def bytesOf_def hexEncode_k example_cache_miss
        summaryFromCache_def p_record_def summaryFetch_def examplePlugin_def
        proposalStatus_def summaryCacheWrite_def cacheDataGet_def cacheEmpty_def)

lemma example_tokenDecode: "tokenDecode examplePlugin ''6b'' = Some ''k''"
  by (simp add: examplePlugin_def hexDecode_6b del: hexDecodeString.simps)

lemma example_backend:
  "backendRecords examplePlugin rrs
   = Inr [''6b'' \<mapsto> \<lparr>rec_State = StateVetted, rec_Status = StatusPublic, rec_Files = []\<rparr>]"
  by (simp add: examplePlugin_def)

lemma example_blobs: "blobsByDataDesc examplePlugin ts t ds = Inr ts"
  by (simp add: examplePlugin_def)

lemma example_marshal:
  "jsonMarshalBillingStatusChange (library examplePlugin) c = Inr (bsc_Reason c)"
  by (simp add: example_library exampleLib_def)

lemma example_marshal_descriptor:
  "jsonMarshalDataDescriptor (library examplePlugin) d = Inr (dd_Descriptor d)"
  by (simp add: example_library exampleLib_def)

lemma example_blobSave: "blobSave examplePlugin ts t be = Inr (ts @ [be])"
  by (simp add: examplePlugin_def)

lemma example_newBlobEntry:
  "NewBlobEntry (library examplePlugin) ''pi-billingstatus-v1'' ''done''
   = \<lparr>be_Digest = ''64'', be_DataHint = ''pi-billingstatus-v1'', be_Data = ''done''\<rparr>"
  by (simp add: NewBlobEntry_def example_library exampleLib_def hexEncode_d)

theorem set_billing_status_validation_order_witness:
  "cmdSetBillingStatus examplePlugin [] (Some ''m'') ''2done''
     = (Inl (PluginError ErrorCodeTokenInvalid), []) \<and>
   cmdSetBillingStatus
       (examplePlugin\<lparr>verifySignature :=
          \<lambda>sig pk msg. Some (SignatureError ErrorStatusSignatureInvalid)\<rparr>)
       [] (Some ''k'') ''2done''
     = (Inl (PluginError ErrorCodeSignatureInvalid), []) \<and>
   cmdSetBillingStatus examplePlugin [] (Some ''k'') ''2''
     = (Inl (PluginError ErrorCodeBillingStatusChangeNotAllowed), []) \<and>
   cmdSetBillingStatus examplePlugin
       [\<lparr>be_Digest = ''64'', be_DataHint = ''pi-billingstatus-v1'', be_Data = ''done''\<rparr>,
        \<lparr>be_Digest = ''6d'', be_DataHint = ''pi-billingstatus-v1'', be_Data = ''more''\<rparr>]
       (Some ''k'') ''1''
     = (Inl (PluginError ErrorCodeBillingStatusChangeNotAllowed),
        [\<lparr>be_Digest = ''64'', be_DataHint = ''pi-billingstatus-v1'', be_Data = ''done''\<rparr>,
         \<lparr>be_Digest = ''6d'', be_DataHint = ''pi-billingstatus-v1'', be_Data = ''more''\<rparr>]) \<and>
   cmdSetBillingStatus examplePlugin [] (Some ''k'') ''2done''
     = (Inr \<lparr>sbsr_Timestamp = 1700000000, sbsr_Receipt = ''72''\<rparr>,
        [\<lparr>be_Digest = ''64'', be_DataHint = ''pi-billingstatus-v1'', be_Data = ''done''\<rparr>])"
proof (intro conjI)
  show "cmdSetBillingStatus examplePlugin [] (Some ''m'') ''2done''
     = (Inl (PluginError ErrorCodeTokenInvalid), [])"
    using set_billing_status_validation_order
            [where p = examplePlugin and ts = "[]" and token = "Some ''m''"
               and payload = "''2done''" and pt = "''k''"
               and sbs = "\<lparr>sbs_Token = ''6b'', sbs_Status = BillingStatusClosed,
                          sbs_Reason = ''done'', sbs_PublicKey = ''pk'',
                          sbs_Signature = ''sig''\<rparr>"]
    by (simp add: example_request_closed example_tokenDecode bytesOf_def)
next
  let ?p = "examplePlugin\<lparr>verifySignature :=
          \<lambda>sig pk msg. Some (SignatureError ErrorStatusSignatureInvalid)\<rparr>"
  show "cmdSetBillingStatus ?p [] (Some ''k'') ''2done''
     = (Inl (PluginError ErrorCodeSignatureInvalid), [])"
    using set_billing_status_validation_order
            [where p = ?p and ts = "[]" and token = "Some ''k''"
               and payload = "''2done''"
               and sbs = "\<lparr>sbs_Token = ''6b'', sbs_Status = BillingStatusClosed,
                          sbs_Reason = ''done'', sbs_PublicKey = ''pk'',
                          sbs_Signature = ''sig''\<rparr>"]
    by (simp add: example_request_closed example_tokenDecode bytesOf_def)
next
  show "cmdSetBillingStatus examplePlugin [] (Some ''k'') ''2''
     = (Inl (PluginError ErrorCodeBillingStatusChangeNotAllowed), [])"
    using set_billing_status_validation_order
            [where p = examplePlugin and ts = "[]" and token = "Some ''k''"
               and payload = "''2''"
               and sbs = "\<lparr>sbs_Token = ''6b'', sbs_Status = BillingStatusClosed,
                          sbs_Reason = [], sbs_PublicKey = ''pk'', sbs_Signature = ''sig''\<rparr>"]
    by (simp add: example_request_closed example_tokenDecode bytesOf_def example_signature)
next
  let ?ts = "[\<lparr>be_Digest = ''64'', be_DataHint = ''pi-billingstatus-v1'', be_Data = ''done''\<rparr>,
        \<lparr>be_Digest = ''6d'', be_DataHint = ''pi-billingstatus-v1'', be_Data = ''more''\<rparr>]"
  show "cmdSetBillingStatus examplePlugin ?ts (Some ''k'') ''1''
     = (Inl (PluginError ErrorCodeBillingStatusChangeNotAllowed), ?ts)"
    using set_billing_status_validation_order
            [where p = examplePlugin and ts = ?ts and token = "Some ''k''"
               and payload = "''1''"
               and sbs = "\<lparr>sbs_Token = ''6b'', sbs_Status = BillingStatusActive,
                          sbs_Reason = [], sbs_PublicKey = ''pk'', sbs_Signature = ''sig''\<rparr>"
               and reply = "[''6b'' \<mapsto> \<lparr>rec_State = StateVetted, rec_Status = StatusPublic,
                                            rec_Files = []\<rparr>]"
               and r = "\<lparr>rec_State = StateVetted, rec_Status = StatusPublic, rec_Files = []\<rparr>"
               and vm = None and blobs = ?ts
               and cs = "[exampleChange ''done'', exampleChange ''more'']"
               and bscs = "[exampleChange ''done'', exampleChange ''more'']"]
    by (simp add: example_request_active example_tokenDecode bytesOf_def example_signature
          example_vote example_backend hexEncode_k example_voteMetadata isRFP_def example_blobs
          example_decode_done example_decode_more example_max exampleChange_def)
next
  show "cmdSetBillingStatus examplePlugin [] (Some ''k'') ''2done''
     = (Inr \<lparr>sbsr_Timestamp = 1700000000, sbsr_Receipt = ''72''\<rparr>,
        [\<lparr>be_Digest = ''64'', be_DataHint = ''pi-billingstatus-v1'', be_Data = ''done''\<rparr>])"
    using set_billing_status_validation_order
            [where p = examplePlugin and ts = "[]" and token = "Some ''k''"
               and payload = "''2done''"
               and sbs = "\<lparr>sbs_Token = ''6b'', sbs_Status = BillingStatusClosed,
                          sbs_Reason = ''done'', sbs_PublicKey = ''pk'',
                          sbs_Signature = ''sig''\<rparr>"
               and reply = "[''6b'' \<mapsto> \<lparr>rec_State = StateVetted, rec_Status = StatusPublic,
                                            rec_Files = []\<rparr>]"
               and r = "\<lparr>rec_State = StateVetted, rec_Status = StatusPublic, rec_Files = []\<rparr>"
               and vm = None and blobs = "[]" and cs = "[]" and bscs = "[]"
               and currStatus = BillingStatusActive
               and dat = "''done''" and hint = "''pi-billingstatus-v1''"
               and ts' = "[\<lparr>be_Digest = ''64'', be_DataHint = ''pi-billingstatus-v1'',
                             be_Data = ''done''\<rparr>]"]
    by (simp add: example_request_closed example_tokenDecode bytesOf_def example_signature
          example_vote example_backend hexEncode_k example_voteMetadata isRFP_def example_blobs
          example_max example_marshal example_marshal_descriptor example_descriptor
          example_blobSave example_newBlobEntry example_now example_receipt)
qed

section \<open>Self transitions\<close>

lemma not_allowed_self: "\<not> billingStatusChangeAllowed s s"
  by (cases s) (simp_all add: billingStatusChangeAllowed_def billingStatusChanges_def)

text \<open>
  Claim C6, as it stands, says that the table treats a change from a status to itself
  as legal. The table lists, for each of the three statuses, only the two others: a
  change from \<open>Active\<close> to \<open>Active\<close> is not in it.
\<close>

theorem self_transition_legal_counterexample:
  "\<not> billingStatusChangeAllowed BillingStatusActive BillingStatusActive"
  by (simp add: billingStatusChangeAllowed_def billingStatusChanges_def)

text \<open>
  Claim C6, amended. No status may change to itself, and a request for the status that
  the proposal already has passes every earlier check and then fails the transition
  check with \<open>BillingStatusChangeNotAllowed\<close>, the store unchanged.
\<close>

theorem self_transition_rejected:
  "\<not> billingStatusChangeAllowed s s \<and>
   (jsonUnmarshalSetBillingStatus p payload = Inr sbs \<and>
    tokenMatches p token (sbs_Token sbs) = None \<and>
    sbs_Status sbs \<in> {BillingStatusActive, BillingStatusClosed, BillingStatusCompleted} \<and>
    verifySignature p (sbs_Signature sbs) (sbs_PublicKey sbs)
      (sbs_Token sbs @ formatUint (billingStatusUint p (sbs_Status sbs)) @ sbs_Reason sbs)
      = None \<and>
    \<not> (sbs_Status sbs = BillingStatusClosed \<and> sbs_Reason sbs = []) \<and>
    voteSummary p token = Inr VoteStatusApproved \<and>
    p_record p \<lparr>rr_Token = token, rr_Filenames = [fileNameVoteMetadata p],
                rr_OmitAllFiles = False\<rparr> = Inr r \<and>
    voteMetadataDecode p (rec_Files r) = Inr vm \<and>
    \<not> isRFP vm \<and>
    p_billingStatusChanges p ts token = Inr bscs \<and>
    length bscs + 1 \<le> unat (billingStatusChangesMax p) \<and>
    proposalBillingStatus VoteStatusApproved bscs = sbs_Status sbs
    \<longrightarrow> cmdSetBillingStatus p ts token payload
          = (Inl (PluginError ErrorCodeBillingStatusChangeNotAllowed), ts))"
proof (intro conjI impI)
  show "\<not> billingStatusChangeAllowed s s" by (rule not_allowed_self)
next
  assume a: "jsonUnmarshalSetBillingStatus p payload = Inr sbs \<and>
    tokenMatches p token (sbs_Token sbs) = None \<and>
    sbs_Status sbs \<in> {BillingStatusActive, BillingStatusClosed, BillingStatusCompleted} \<and>
    verifySignature p (sbs_Signature sbs) (sbs_PublicKey sbs)
      (sbs_Token sbs @ formatUint (billingStatusUint p (sbs_Status sbs)) @ sbs_Reason sbs)
      = None \<and>
    \<not> (sbs_Status sbs = BillingStatusClosed \<and> sbs_Reason sbs = []) \<and>
    voteSummary p token = Inr VoteStatusApproved \<and>
    p_record p \<lparr>rr_Token = token, rr_Filenames = [fileNameVoteMetadata p],
                rr_OmitAllFiles = False\<rparr> = Inr r \<and>
    voteMetadataDecode p (rec_Files r) = Inr vm \<and>
    \<not> isRFP vm \<and>
    p_billingStatusChanges p ts token = Inr bscs \<and>
    length bscs + 1 \<le> unat (billingStatusChangesMax p) \<and>
    proposalBillingStatus VoteStatusApproved bscs = sbs_Status sbs"
  then have chk: "cmdSetBillingStatus p ts token payload =
     (if (word_of_nat (length bscs + 1) :: 32 word) > billingStatusChangesMax p
      then (Inl (PluginError ErrorCodeBillingStatusChangeNotAllowed), ts)
      else if \<not> billingStatusChangeAllowed (proposalBillingStatus VoteStatusApproved bscs)
                 (sbs_Status sbs)
      then (Inl (PluginError ErrorCodeBillingStatusChangeNotAllowed), ts)
      else (case billingStatusSave p ts token
                   \<lparr>bsc_Token = sbs_Token sbs, bsc_Status = sbs_Status sbs,
                    bsc_Reason = sbs_Reason sbs, bsc_PublicKey = sbs_PublicKey sbs,
                    bsc_Signature = sbs_Signature sbs, bsc_Timestamp = timeNowUnix p,
                    bsc_Receipt = hexEncodeToString (signMessage p (sbs_Signature sbs))\<rparr> of
              Inl e \<Rightarrow> (Inl e, ts)
            | Inr ts' \<Rightarrow>
                (Inr \<lparr>sbsr_Timestamp = timeNowUnix p,
                      sbsr_Receipt = hexEncodeToString (signMessage p (sbs_Signature sbs))\<rparr>,
                 ts')))"
    by (intro cmdSetBillingStatus_checked) blast+
  from a have "\<not> billingStatusChangeAllowed (proposalBillingStatus VoteStatusApproved bscs)
                 (sbs_Status sbs)"
    by (simp add: not_allowed_self)
  then show "cmdSetBillingStatus p ts token payload
          = (Inl (PluginError ErrorCodeBillingStatusChangeNotAllowed), ts)"
    by (simp only: chk if_True if_False simp_thms split: if_split)
qed

theorem self_transition_rejected_witness:
  "\<not> billingStatusChangeAllowed BillingStatusCompleted BillingStatusCompleted \<and>
   cmdSetBillingStatus examplePlugin
       [\<lparr>be_Digest = ''64'', be_DataHint = ''pi-billingstatus-v1'', be_Data = ''done''\<rparr>]
       (Some ''k'') ''2again''
     = (Inl (PluginError ErrorCodeBillingStatusChangeNotAllowed),
        [\<lparr>be_Digest = ''64'', be_DataHint = ''pi-billingstatus-v1'', be_Data = ''done''\<rparr>])"
  using self_transition_rejected
          [where s = BillingStatusCompleted and p = examplePlugin
             and ts = "[\<lparr>be_Digest = ''64'', be_DataHint = ''pi-billingstatus-v1'',
                          be_Data = ''done''\<rparr>]"
             and token = "Some ''k''" and payload = "''2again''"
             and sbs = "\<lparr>sbs_Token = ''6b'', sbs_Status = BillingStatusClosed,
                        sbs_Reason = ''again'', sbs_PublicKey = ''pk'',
                        sbs_Signature = ''sig''\<rparr>"
             and r = "\<lparr>rec_State = StateVetted, rec_Status = StatusPublic, rec_Files = []\<rparr>"
             and vm = None and bscs = "[exampleChange ''done'']"]
  by (simp add: example_request_closed example_tokenMatches example_signature example_vote
        example_record example_voteMetadata example_history_one example_max isRFP_def
        proposalBillingStatus_def exampleChange_def)

section \<open>Summary\<close>

lemma cacheVoteStatusSet_total:
  "0 < k \<Longrightarrow> \<exists>c'. cacheVoteStatusSet k c t v = Inr c'"
  by (cases "cache_entries c") (auto simp: cacheVoteStatusSet_def split: option.splits)

lemma cacheProposalStatusSet_total:
  "0 < k \<Longrightarrow> \<exists>c'. cacheProposalStatusSet k c t s = Inr c'"
  by (cases "cache_entries c") (auto simp: cacheProposalStatusSet_def split: option.splits)

lemma cacheVoteStatusSet_entry:
  "cacheVoteStatusSet k c t v = Inr c' \<Longrightarrow>
     \<exists>d. cacheDataGet c' t = Some d \<and> cd_voteStatus d = Some v \<and>
         cd_proposalStatus d
           = (case cacheDataGet c t of None \<Rightarrow> None | Some d0 \<Rightarrow> cd_proposalStatus d0)"
  by (auto simp: cacheVoteStatusSet_def cacheDataGet_def
           split: option.splits if_splits list.splits)

lemma cacheProposalStatusSet_entry:
  "cacheProposalStatusSet k c t s = Inr c' \<Longrightarrow>
     \<exists>d. cacheDataGet c' t = Some d \<and> cd_proposalStatus d = Some s \<and>
         cd_voteStatus d
           = (case cacheDataGet c t of None \<Rightarrow> None | Some d0 \<Rightarrow> cd_voteStatus d0)"
  by (auto simp: cacheProposalStatusSet_def cacheDataGet_def
           split: option.splits if_splits list.splits)

lemma proposalStatusApproved_result:
  "proposalStatusApproved vm bscs = Inr s \<Longrightarrow>
     s \<in> {PropStatusApproved, PropStatusActive, PropStatusCompleted, PropStatusClosed}"
  by (auto simp: proposalStatusApproved_def Let_def split: if_splits BillingStatusT.splits)

lemma proposalStatus_result:
  assumes "proposalStatus st stt vs vm bscs = Inr s"
  shows "s \<noteq> PropStatusInvalid"
    and "s \<in> {PropStatusActive, PropStatusCompleted, PropStatusClosed}
           \<Longrightarrow> vs = VoteStatusApproved"
  using assms proposalStatusApproved_result [of vm bscs s]
  by (cases st; cases stt; cases vs; auto simp: proposalStatus_def)+

lemma summaryFromCache_None:
  "(summaryFromCache p ts token d = None) =
     (\<forall>dd. d = Some dd \<longrightarrow> cd_proposalStatus dd = None \<and> cd_voteStatus dd = None)"
  by (auto simp: summaryFromCache_def split: option.splits)

lemma cmdSummary_slow:
  assumes "summaryFromCache p ts token
             (cacheDataGet c (hexEncodeToString (bytesOf token))) = None"
    and "cmdSummary p ts c token = (Inr s, c')"
  shows "\<exists>st stt vm vs bscs.
           proposalStatus st stt vs vm bscs = Inr s \<and>
           summaryCacheWrite (piCacheLimit p) c (hexEncodeToString (bytesOf token)) s vs
             = Inr c'"
  using assms
  by (auto simp: cmdSummary_def Let_def split: sum.splits prod.splits) blast

lemma proposalStatusApproved_nonRFP:
  "\<not> isRFP vm \<Longrightarrow>
     proposalStatusApproved vm bscs =
       (if bscs = [] then Inr PropStatusActive
        else (case bsc_Status (last bscs) of
                BillingStatusActive \<Rightarrow> Inr PropStatusActive
              | BillingStatusClosed \<Rightarrow> Inr PropStatusClosed
              | BillingStatusCompleted \<Rightarrow> Inr PropStatusCompleted
              | BillingStatusInvalid \<Rightarrow> Inl (ErrPropStatusApproved BillingStatusInvalid)
              | BillingStatusOther n \<Rightarrow> Inl (ErrPropStatusApproved (BillingStatusOther n))))"
  by (simp add: proposalStatusApproved_def proposalBillingStatus_def Let_def last_conv_nth
           split: BillingStatusT.splits)

lemma summaryFetch_approved:
  "voteSummary p token = Inr VoteStatusApproved \<Longrightarrow>
   p_billingStatusChanges p ts token = Inr bscs \<Longrightarrow>
     summaryFetch p ts token StateVetted StatusPublic = Inr (VoteStatusApproved, bscs)"
  by (simp add: summaryFetch_def)

lemma cmdSummary_approved_empty:
  assumes nonrfp: "\<not> isRFP vm"
    and limit: "0 < piCacheLimit p"
    and cached: "\<forall>d. cacheDataGet c (hexEncodeToString (bytesOf token)) = Some d \<longrightarrow>
                   cd_proposalStatus d = None"
    and rec: "p_record p \<lparr>rr_Token = token, rr_Filenames = [fileNameVoteMetadata p],
                rr_OmitAllFiles = False\<rparr> = Inr r"
    and vetted: "rec_State r = StateVetted" "rec_Status r = StatusPublic"
    and vmd: "voteMetadataDecode p (rec_Files r) = Inr vm"
    and vote: "voteSummary p token = Inr VoteStatusApproved"
    and hist: "p_billingStatusChanges p ts token = Inr []"
  shows "fst (cmdSummary p ts c token) = Inr PropStatusActive"
proof -
  let ?t = "hexEncodeToString (bytesOf token)"
  have act: "proposalStatusApproved vm [] = Inr PropStatusActive"
    using nonrfp by (simp add: proposalStatusApproved_nonRFP)
  have act': "proposalStatusApproved None [] = Inr PropStatusActive"
    by (simp add: proposalStatusApproved_nonRFP isRFP_def)
  show ?thesis
  proof (cases "summaryFromCache p ts token (cacheDataGet c ?t)")
    case None
    obtain c' where set: "cacheVoteStatusSet (piCacheLimit p) c ?t VoteStatusApproved = Inr c'"
      using cacheVoteStatusSet_total [OF limit] by blast
    have "proposalStatus StateVetted StatusPublic VoteStatusApproved vm [] = Inr PropStatusActive"
      using act by (simp add: proposalStatus_def)
    with None set show ?thesis
      by (simp add: cmdSummary_def Let_def rec vetted vmd
            summaryFetch_approved [OF vote hist] summaryCacheWrite_def)
  next
    case (Some res)
    then have "res = Inr PropStatusActive"
      using cached act' hist
      by (auto simp: summaryFromCache_def split: option.splits)
    with Some show ?thesis
      by (simp add: cmdSummary_def Let_def)
  qed
qed

text \<open>
  Claim C2. For a proposal that is no RFP the status of an approved proposal depends on
  the billing history alone: \<open>Active\<close> for the empty history, and otherwise the
  status of the last entry, an error if that is none of \<open>Active\<close>, \<open>Closed\<close>,
  \<open>Completed\<close>. The summary of a vetted, public proposal with an approved vote and
  an empty history is \<open>Active\<close>, on a cache that holds no proposal status for it.
\<close>

theorem approved_status_from_billing_history:
  assumes "\<not> isRFP vm"
  shows
    "proposalStatusApproved vm [] = Inr PropStatusActive \<and>
     (bscs \<noteq> [] \<longrightarrow>
        proposalStatusApproved vm bscs =
          (case bsc_Status (last bscs) of
             BillingStatusActive \<Rightarrow> Inr PropStatusActive
           | BillingStatusClosed \<Rightarrow> Inr PropStatusClosed
           | BillingStatusCompleted \<Rightarrow> Inr PropStatusCompleted
           | BillingStatusInvalid \<Rightarrow> Inl (ErrPropStatusApproved BillingStatusInvalid)
           | BillingStatusOther n \<Rightarrow> Inl (ErrPropStatusApproved (BillingStatusOther n)))) \<and>
     (0 < piCacheLimit p \<and>
      (\<forall>d. cacheDataGet c (hexEncodeToString (bytesOf token)) = Some d \<longrightarrow>
           cd_proposalStatus d = None) \<and>
      p_record p \<lparr>rr_Token = token, rr_Filenames = [fileNameVoteMetadata p],
                  rr_OmitAllFiles = False\<rparr> = Inr r \<and>
      rec_State r = StateVetted \<and> rec_Status r = StatusPublic \<and>
      voteMetadataDecode p (rec_Files r) = Inr vm \<and>
      voteSummary p token = Inr VoteStatusApproved \<and>
      p_billingStatusChanges p ts token = Inr []
      \<longrightarrow> fst (cmdSummary p ts c token) = Inr PropStatusActive)"
  using assms cmdSummary_approved_empty [of vm p c token r ts]
  by (simp add: proposalStatusApproved_nonRFP)

theorem approved_status_from_billing_history_witness:
  "proposalStatusApproved None [] = Inr PropStatusActive \<and>
   proposalStatusApproved None [exampleChange ''done'', exampleChange ''more'']
     = Inr PropStatusClosed \<and>
   fst (cmdSummary examplePlugin [] cacheEmpty (Some ''k'')) = Inr PropStatusActive"
  using approved_status_from_billing_history
          [where vm = None and bscs = "[exampleChange ''done'', exampleChange ''more'']"
             and p = examplePlugin and c = cacheEmpty and token = "Some ''k''" and ts = "[]"
             and r = "\<lparr>rec_State = StateVetted, rec_Status = StatusPublic, rec_Files = []\<rparr>"]
  by (simp add: isRFP_def example_cache_miss example_limit example_record example_voteMetadata
        example_vote example_history_empty exampleChange_def)

text \<open>
  Claim C9. When \<open>cmdSummary\<close> finds nothing usable in the cache and computes a
  status, a terminal status is stored as the proposal status of the token, a status
  among \<open>Active\<close>, \<open>Completed\<close>, \<open>Closed\<close> stores the vote status
  \<open>Approved\<close> and no proposal status, and any other status leaves the cache as it was.
\<close>

theorem summary_cache_write_by_tier:
  assumes miss: "\<forall>d. cacheDataGet c (hexEncodeToString (bytesOf token)) = Some d \<longrightarrow>
                   cd_proposalStatus d = None \<and> cd_voteStatus d = None"
    and res: "cmdSummary p ts c token = (Inr s, c')"
  shows
    "(s \<in> {PropStatusUnvettedAbandoned, PropStatusUnvettedCensored, PropStatusAbandoned,
            PropStatusCensored, PropStatusApproved, PropStatusRejected} \<longrightarrow>
        cacheProposalStatusSet (piCacheLimit p) c (hexEncodeToString (bytesOf token)) s
          = Inr c' \<and>
        (\<exists>d. cacheDataGet c' (hexEncodeToString (bytesOf token)) = Some d \<and>
             cd_proposalStatus d = Some s \<and> cd_voteStatus d = None)) \<and>
     (s \<in> {PropStatusActive, PropStatusCompleted, PropStatusClosed} \<longrightarrow>
        cacheVoteStatusSet (piCacheLimit p) c (hexEncodeToString (bytesOf token))
            VoteStatusApproved = Inr c' \<and>
        (\<exists>d. cacheDataGet c' (hexEncodeToString (bytesOf token)) = Some d \<and>
             cd_voteStatus d = Some VoteStatusApproved \<and> cd_proposalStatus d = None)) \<and>
     (s \<in> {PropStatusUnvetted, PropStatusUnderReview, PropStatusVoteAuthorized,
            PropStatusVoteStarted} \<longrightarrow> c' = c) \<and>
     s \<noteq> PropStatusInvalid"
proof -
  let ?t = "hexEncodeToString (bytesOf token)"
  from miss have none: "summaryFromCache p ts token (cacheDataGet c ?t) = None"
    by (simp add: summaryFromCache_None)
  from cmdSummary_slow [OF none res] obtain st stt vm vs bscs where
    ps: "proposalStatus st stt vs vm bscs = Inr s" and
    cw: "summaryCacheWrite (piCacheLimit p) c ?t s vs = Inr c'"
    by blast
  have old: "(case cacheDataGet c ?t of None \<Rightarrow> None | Some d0 \<Rightarrow> cd_proposalStatus d0) = None"
       "(case cacheDataGet c ?t of None \<Rightarrow> None | Some d0 \<Rightarrow> cd_voteStatus d0) = None"
    using miss by (auto split: option.splits)
  have terminal: "cacheProposalStatusSet (piCacheLimit p) c ?t s = Inr c' \<and>
        (\<exists>d. cacheDataGet c' ?t = Some d \<and> cd_proposalStatus d = Some s \<and> cd_voteStatus d = None)"
    if "s \<in> {PropStatusUnvettedAbandoned, PropStatusUnvettedCensored, PropStatusAbandoned,
            PropStatusCensored, PropStatusApproved, PropStatusRejected}"
  proof -
    from that cw have set: "cacheProposalStatusSet (piCacheLimit p) c ?t s = Inr c'"
      by (simp add: summaryCacheWrite_def)
    from cacheProposalStatusSet_entry [OF set] old show ?thesis
      using set by simp
  qed
  have quasi: "cacheVoteStatusSet (piCacheLimit p) c ?t VoteStatusApproved = Inr c' \<and>
        (\<exists>d. cacheDataGet c' ?t = Some d \<and> cd_voteStatus d = Some VoteStatusApproved \<and>
             cd_proposalStatus d = None)"
    if "s \<in> {PropStatusActive, PropStatusCompleted, PropStatusClosed}"
  proof -
    from proposalStatus_result(2) [OF ps that] have vs: "vs = VoteStatusApproved" .
    from that cw vs have set: "cacheVoteStatusSet (piCacheLimit p) c ?t VoteStatusApproved = Inr c'"
      by (auto simp: summaryCacheWrite_def)
    from cacheVoteStatusSet_entry [OF set] old show ?thesis
      using set by simp
  qed
  have transient: "c' = c"
    if "s \<in> {PropStatusUnvetted, PropStatusUnderReview, PropStatusVoteAuthorized,
            PropStatusVoteStarted}"
    using that cw by (auto simp: summaryCacheWrite_def)
  from terminal quasi transient proposalStatus_result(1) [OF ps] show ?thesis
    by blast
qed

theorem summary_cache_write_by_tier_witness:
  "cacheVoteStatusSet 2 cacheEmpty ''6b'' VoteStatusApproved
     = Inr (snd (cmdSummary examplePlugin [] cacheEmpty (Some ''k''))) \<and>
   cacheProposalStatusSet 2 cacheEmpty ''6b'' PropStatusRejected
     = Inr (snd (cmdSummary (examplePlugin\<lparr>voteSummary := \<lambda>t. Inr VoteStatusRejected\<rparr>) []
                   cacheEmpty (Some ''k''))) \<and>
   snd (cmdSummary (examplePlugin\<lparr>voteSummary := \<lambda>t. Inr VoteStatusStarted\<rparr>) []
          cacheEmpty (Some ''k'')) = cacheEmpty"
  using summary_cache_write_by_tier
          [where c = cacheEmpty and token = "Some ''k''" and p = examplePlugin and ts = "[]"
             and s = PropStatusActive, OF _ example_summary_approved]
        summary_cache_write_by_tier
          [where c = cacheEmpty and token = "Some ''k''" and ts = "[]"
             and p = "examplePlugin\<lparr>voteSummary := \<lambda>t. Inr VoteStatusRejected\<rparr>"
             and s = PropStatusRejected, OF _ example_summary_rejected]
        summary_cache_write_by_tier
          [where c = cacheEmpty and token = "Some ''k''" and ts = "[]"
             and p = "examplePlugin\<lparr>voteSummary := \<lambda>t. Inr VoteStatusStarted\<rparr>"
             and s = PropStatusVoteStarted, OF _ example_summary_started]
  by (simp add: example_cache_miss example_summary_approved example_summary_rejected
        example_summary_started bytesOf_def hexEncode_k example_limit)

section \<open>Billing status codec\<close>

text \<open>
  Claim C7. Given that the JSON and base64 codings of the library invert each other
  on the values at hand, decoding the encoding of a change gives the change back; a
  blob whose payload does not have the stored digest is refused as not coherent, and
  a blob with another descriptor is refused as well.
\<close>

theorem billing_status_codec:
  "(jsonMarshalBillingStatusChange (library p) c = Inr dat \<and>
    jsonUnmarshalBillingStatusChange (library p) dat = Some c \<and>
    jsonMarshalDataDescriptor (library p)
        \<lparr>dd_Type = dataTypeStructure p, dd_Descriptor = dataDescriptorBillingStatus p\<rparr>
      = Inr hint \<and>
    jsonUnmarshalDataDescriptor (library p) hint
      = Some \<lparr>dd_Type = dataTypeStructure p, dd_Descriptor = dataDescriptorBillingStatus p\<rparr> \<and>
    base64Decode (library p) (base64Encode (library p) hint) = Some hint \<and>
    base64Decode (library p) (base64Encode (library p) dat) = Some dat
    \<longrightarrow>
      (\<exists>be. billingStatusEncode p c = Inr be \<and> billingStatusDecode p be = Inr c \<and>
         (base64Decode (library p) (base64Encode (library p) tampered) = Some tampered \<and>
          utilDigest (library p) tampered \<noteq> utilDigest (library p) dat \<longrightarrow>
            billingStatusDecode p (be\<lparr>be_Data := base64Encode (library p) tampered\<rparr>)
              = Inl ErrNotCoherent))) \<and>
   (base64Decode (library p) (be_DataHint blob) = Some h \<and>
    jsonUnmarshalDataDescriptor (library p) h = Some dd \<and>
    dd_Descriptor dd = dataDescriptorBillingStatus p \<and>
    base64Decode (library p) (be_Data blob) = Some b \<and>
    hexDecodeString (be_Digest blob) = Some digest \<and>
    utilDigest (library p) b \<noteq> digest
    \<longrightarrow> billingStatusDecode p blob = Inl ErrNotCoherent) \<and>
   (base64Decode (library p) (be_DataHint blob') = Some h' \<and>
    jsonUnmarshalDataDescriptor (library p) h' = Some dd' \<and>
    dd_Descriptor dd' \<noteq> dataDescriptorBillingStatus p
    \<longrightarrow> billingStatusDecode p blob' = Inl (ErrUnexpectedDescriptor (dd_Descriptor dd')))"
proof (intro conjI impI, goal_cases)
  case 1
  then show ?case
    by (intro exI [of _ "NewBlobEntry (library p) hint dat"])
       (simp add: billingStatusEncode_def billingStatusDecode_def NewBlobEntry_def
          hexDecode_hexEncode)
next
  case 2
  then show ?case by (simp add: billingStatusDecode_def)
next
  case 3
  then show ?case by (simp add: billingStatusDecode_def)
qed

theorem billing_status_codec_witness:
  "(\<exists>be. billingStatusEncode examplePlugin (exampleChange ''done'') = Inr be \<and>
         billingStatusDecode examplePlugin be = Inr (exampleChange ''done'') \<and>
         billingStatusDecode examplePlugin (be\<lparr>be_Data := ''gone''\<rparr>) = Inl ErrNotCoherent) \<and>
   billingStatusDecode examplePlugin
       \<lparr>be_Digest = ''64'', be_DataHint = ''pi-billingstatus-v1'', be_Data = ''gone''\<rparr>
     = Inl ErrNotCoherent \<and>
   billingStatusDecode examplePlugin
       \<lparr>be_Digest = ''64'', be_DataHint = ''pi-comment-v1'', be_Data = ''done''\<rparr>
     = Inl (ErrUnexpectedDescriptor ''pi-comment-v1'')"
  using billing_status_codec
          [where p = examplePlugin and c = "exampleChange ''done''" and dat = "''done''"
             and hint = "''pi-billingstatus-v1''" and tampered = "''gone''"
             and blob = "\<lparr>be_Digest = ''64'', be_DataHint = ''pi-billingstatus-v1'',
                            be_Data = ''gone''\<rparr>"
             and h = "''pi-billingstatus-v1''"
             and dd = "\<lparr>dd_Type = ''struct'', dd_Descriptor = ''pi-billingstatus-v1''\<rparr>"
             and b = "''gone''" and digest = "''d''"
             and blob' = "\<lparr>be_Digest = ''64'', be_DataHint = ''pi-comment-v1'',
                            be_Data = ''done''\<rparr>"
             and h' = "''pi-comment-v1''"
             and dd' = "\<lparr>dd_Type = ''struct'', dd_Descriptor = ''pi-comment-v1''\<rparr>"]
  by (simp add: example_library example_descriptor example_dataType exampleLib_def
        exampleChange_def hexDecode_64 del: hexDecodeString.simps)

section \<open>Result cache\<close>

lemma cacheInv_empty: "cacheInv k cacheEmpty"
  by (simp add: cacheInv_def cacheEmpty_def)

lemma cacheVoteStatusSet_present:
  "cache_data c t = Some d \<Longrightarrow>
     cacheVoteStatusSet k c t v
       = Inr (c\<lparr>cache_data := (cache_data c)(t \<mapsto> d\<lparr>cd_voteStatus := Some v\<rparr>)\<rparr>)"
  by (simp add: cacheVoteStatusSet_def)

lemma cacheProposalStatusSet_present:
  "cache_data c t = Some d \<Longrightarrow>
     cacheProposalStatusSet k c t s
       = Inr (c\<lparr>cache_data := (cache_data c)(t \<mapsto> d\<lparr>cd_proposalStatus := Some s\<rparr>)\<rparr>)"
  by (simp add: cacheProposalStatusSet_def)

lemma cacheInv_evict:
  assumes "cacheInv k c" "cache_entries c = x # rest" "t \<notin> set (cache_entries c)"
  shows "cacheInv k \<lparr>cache_data = ((cache_data c)(x := None))(t \<mapsto> d),
                     cache_entries = rest @ [t]\<rparr>"
  using assms by (auto simp: cacheInv_def)

lemma cacheInv_push:
  assumes "cacheInv k c" "length (cache_entries c) \<noteq> k" "t \<notin> set (cache_entries c)"
  shows "cacheInv k \<lparr>cache_data = (cache_data c)(t \<mapsto> d),
                     cache_entries = cache_entries c @ [t]\<rparr>"
  using assms by (auto simp: cacheInv_def)

lemma cacheInv_absent:
  assumes "cacheInv k c"
  shows "(cache_data c t = None) = (t \<notin> set (cache_entries c))"
proof -
  from assms have "dom (cache_data c) = set (cache_entries c)"
    by (simp add: cacheInv_def)
  then have "(t \<in> dom (cache_data c)) = (t \<in> set (cache_entries c))"
    by simp
  then show ?thesis
    by (simp only: domIff) blast
qed

lemma cacheVoteStatusSet_absent:
  assumes k: "0 < k" and inv: "cacheInv k c" and new: "t \<notin> set (cache_entries c)"
  shows "\<exists>c'. cacheVoteStatusSet k c t v = Inr c' \<and> cacheInv k c' \<and>
           cache_entries c'
             = (if length (cache_entries c) = k then tl (cache_entries c) @ [t]
                else cache_entries c @ [t])"
proof -
  from inv new have none: "cache_data c t = None" by (simp add: cacheInv_absent)
  show ?thesis
  proof (cases "length (cache_entries c) = k")
    case True
    with k obtain x rest where e: "cache_entries c = x # rest"
      by (cases "cache_entries c") auto
    from cacheInv_evict [OF inv e new] True e none show ?thesis
      by (simp add: cacheVoteStatusSet_def)
  next
    case False
    from cacheInv_push [OF inv False new] False none show ?thesis
      by (simp add: cacheVoteStatusSet_def)
  qed
qed

lemma cacheProposalStatusSet_absent:
  assumes k: "0 < k" and inv: "cacheInv k c" and new: "t \<notin> set (cache_entries c)"
  shows "\<exists>c'. cacheProposalStatusSet k c t s = Inr c' \<and> cacheInv k c' \<and>
           cache_entries c'
             = (if length (cache_entries c) = k then tl (cache_entries c) @ [t]
                else cache_entries c @ [t])"
proof -
  from inv new have none: "cache_data c t = None" by (simp add: cacheInv_absent)
  show ?thesis
  proof (cases "length (cache_entries c) = k")
    case True
    with k obtain x rest where e: "cache_entries c = x # rest"
      by (cases "cache_entries c") auto
    from cacheInv_evict [OF inv e new] True e none show ?thesis
      by (simp add: cacheProposalStatusSet_def)
  next
    case False
    from cacheInv_push [OF inv False new] False none show ?thesis
      by (simp add: cacheProposalStatusSet_def)
  qed
qed

lemma cacheInv_overwrite:
  "cacheInv k c \<Longrightarrow> cache_data c t = Some d \<Longrightarrow>
     cacheInv k (c\<lparr>cache_data := (cache_data c)(t \<mapsto> d')\<rparr>)"
  by (auto simp: cacheInv_def)

lemma cacheApply_inv:
  assumes k: "0 < k" and inv: "cacheInv k c"
  shows "\<exists>c'. cacheApply k c x = Inr c' \<and> cacheInv k c'"
proof (cases x)
  case (OpGet t)
  with inv show ?thesis by simp
next
  case (OpVoteStatusSet t v)
  show ?thesis
  proof (cases "cache_data c t")
    case None
    with inv have "t \<notin> set (cache_entries c)" by (simp add: cacheInv_absent)
    from cacheVoteStatusSet_absent [OF k inv this, of v] OpVoteStatusSet show ?thesis
      by auto
  next
    case (Some d)
    with inv OpVoteStatusSet show ?thesis
      by (simp add: cacheVoteStatusSet_present cacheInv_overwrite)
  qed
next
  case (OpProposalStatusSet t s)
  show ?thesis
  proof (cases "cache_data c t")
    case None
    with inv have "t \<notin> set (cache_entries c)" by (simp add: cacheInv_absent)
    from cacheProposalStatusSet_absent [OF k inv this, of s] OpProposalStatusSet show ?thesis
      by auto
  next
    case (Some d)
    with inv OpProposalStatusSet show ?thesis
      by (simp add: cacheProposalStatusSet_present cacheInv_overwrite)
  qed
qed

lemma cacheRun_inv:
  assumes k: "0 < k"
  shows "cacheInv k c \<Longrightarrow> \<exists>c'. cacheRun k c ops = Inr c' \<and> cacheInv k c'"
proof (induction ops arbitrary: c)
  case Nil
  then show ?case by simp
next
  case (Cons x xs)
  from cacheApply_inv [OF k Cons.prems, of x] obtain c1 where
    c1: "cacheApply k c x = Inr c1" "cacheInv k c1" by blast
  from Cons.IH [OF c1(2)] c1(1) show ?case by simp
qed

lemma drop_step:
  assumes "length e = k" "e \<noteq> []"
  shows "drop (length (tl e @ [t]) + n - k) ((tl e @ [t]) @ r)
           = drop (length (e @ [t]) + n - k) ((e @ [t]) @ r)"
proof -
  from assms obtain x rest where e: "e = x # rest" by (cases e) auto
  with assms(1) have "k = Suc (length rest)" by simp
  with e show ?thesis by simp
qed

lemma cacheRun_fifo:
  assumes k: "0 < k"
  shows "cacheInv k c \<Longrightarrow> distinct (cache_entries c @ setTokens ops) \<Longrightarrow>
           \<exists>c'. cacheRun k c ops = Inr c' \<and> cacheInv k c' \<and>
             cache_entries c'
               = drop (length (cache_entries c @ setTokens ops) - k)
                   (cache_entries c @ setTokens ops)"
proof (induction ops arbitrary: c)
  case Nil
  then show ?case by (simp add: cacheInv_def)
next
  case (Cons x xs)
  have step: "\<exists>c'. cacheRun k c1 xs = Inr c' \<and> cacheInv k c' \<and>
             cache_entries c'
               = drop (length (cache_entries c @ t # setTokens xs) - k)
                   (cache_entries c @ t # setTokens xs)"
    if c1: "cacheInv k c1"
      and e1: "cache_entries c1
             = (if length (cache_entries c) = k then tl (cache_entries c) @ [t]
                else cache_entries c @ [t])"
      and d: "distinct (cache_entries c @ t # setTokens xs)"
    for c1 t
  proof -
    have sub: "set (tl (cache_entries c)) \<subseteq> set (cache_entries c)"
      by (cases "cache_entries c") auto
    have dtl: "distinct (tl (cache_entries c))"
      using d by (simp add: distinct_tl)
    from d sub dtl e1 have d1: "distinct (cache_entries c1 @ setTokens xs)"
      by (auto split: if_splits)
    from Cons.IH [OF c1 d1] obtain c' where
      r: "cacheRun k c1 xs = Inr c'" "cacheInv k c'"
         "cache_entries c' = drop (length (cache_entries c1 @ setTokens xs) - k)
                               (cache_entries c1 @ setTokens xs)"
      by blast
    show ?thesis
    proof (cases "length (cache_entries c) = k")
      case True
      with k have ne: "cache_entries c \<noteq> []" by auto
      from drop_step [OF True ne, of t "length (setTokens xs)" "setTokens xs"] r e1 True
      show ?thesis by simp
    next
      case False
      with r e1 show ?thesis by simp
    qed
  qed
  show ?case
  proof (cases x)
    case (OpGet t)
    with Cons show ?thesis by simp
  next
    case (OpVoteStatusSet t v)
    with Cons.prems have d: "distinct (cache_entries c @ t # setTokens xs)" by simp
    then have new: "t \<notin> set (cache_entries c)" by auto
    from cacheVoteStatusSet_absent [OF k Cons.prems(1) new, of v] obtain c1 where
      c1: "cacheVoteStatusSet k c t v = Inr c1" "cacheInv k c1"
          "cache_entries c1
             = (if length (cache_entries c) = k then tl (cache_entries c) @ [t]
                else cache_entries c @ [t])"
      by blast
    from step [OF c1(2,3) d] c1(1) OpVoteStatusSet show ?thesis by simp
  next
    case (OpProposalStatusSet t s)
    with Cons.prems have d: "distinct (cache_entries c @ t # setTokens xs)" by simp
    then have new: "t \<notin> set (cache_entries c)" by auto
    from cacheProposalStatusSet_absent [OF k Cons.prems(1) new, of s] obtain c1 where
      c1: "cacheProposalStatusSet k c t s = Inr c1" "cacheInv k c1"
          "cache_entries c1
             = (if length (cache_entries c) = k then tl (cache_entries c) @ [t]
                else cache_entries c @ [t])"
      by blast
    from step [OF c1(2,3) d] c1(1) OpProposalStatusSet show ?thesis by simp
  qed
qed

text \<open>
  Claim C8. For a positive limit \<open>k\<close>, no run of gets and sets from the empty cache
  panics or leaves more than \<open>k\<close> entries; after sets of \<open>k + 1\<close> distinct tokens,
  with gets anywhere between them, the cache holds the second to the last of them in
  the order of insertion and not the first; and a set on a token that is present
  replaces one field of its entry, the list and the other tokens untouched.
\<close>

theorem result_cache_fifo:
  assumes k: "0 < k"
  shows
    "(\<exists>c. cacheRun k cacheEmpty ops = Inr c \<and> length (cache_entries c) \<le> k \<and>
          card (dom (cache_data c)) \<le> k \<and> dom (cache_data c) = set (cache_entries c)) \<and>
     (distinct (setTokens ops) \<and> length (setTokens ops) = k + 1 \<longrightarrow>
        (\<exists>c. cacheRun k cacheEmpty ops = Inr c \<and>
             cache_entries c = tl (setTokens ops) \<and>
             dom (cache_data c) = set (tl (setTokens ops)) \<and>
             hd (setTokens ops) \<notin> dom (cache_data c))) \<and>
     (cache_data c0 t = Some d \<longrightarrow>
        (\<exists>c'. cacheVoteStatusSet k c0 t v = Inr c' \<and>
              cache_entries c' = cache_entries c0 \<and>
              dom (cache_data c') = dom (cache_data c0) \<and>
              cache_data c' = (cache_data c0)(t \<mapsto> d\<lparr>cd_voteStatus := Some v\<rparr>)) \<and>
        (\<exists>c'. cacheProposalStatusSet k c0 t s = Inr c' \<and>
              cache_entries c' = cache_entries c0 \<and>
              dom (cache_data c') = dom (cache_data c0) \<and>
              cache_data c' = (cache_data c0)(t \<mapsto> d\<lparr>cd_proposalStatus := Some s\<rparr>)))"
proof (intro conjI impI)
  from cacheRun_inv [OF k cacheInv_empty, of ops] obtain c where
    c: "cacheRun k cacheEmpty ops = Inr c" "cacheInv k c" by blast
  from c(2) have "card (dom (cache_data c)) = length (cache_entries c)"
    by (simp add: cacheInv_def distinct_card)
  with c show "\<exists>c. cacheRun k cacheEmpty ops = Inr c \<and> length (cache_entries c) \<le> k \<and>
          card (dom (cache_data c)) \<le> k \<and> dom (cache_data c) = set (cache_entries c)"
    by (auto simp: cacheInv_def)
next
  assume a: "distinct (setTokens ops) \<and> length (setTokens ops) = k + 1"
  then have d: "distinct (cache_entries cacheEmpty @ setTokens ops)"
    by (simp add: cacheEmpty_def)
  from cacheRun_fifo [OF k cacheInv_empty d] obtain c where
    c: "cacheRun k cacheEmpty ops = Inr c" "cacheInv k c"
       "cache_entries c = drop (length (cache_entries cacheEmpty @ setTokens ops) - k)
                            (cache_entries cacheEmpty @ setTokens ops)"
    by blast
  from a obtain x rest where toks: "setTokens ops = x # rest"
    by (cases "setTokens ops") auto
  with a c(3) have e: "cache_entries c = tl (setTokens ops)"
    by (simp add: cacheEmpty_def)
  from a toks have "hd (setTokens ops) \<notin> set (tl (setTokens ops))" by auto
  with c e show "\<exists>c. cacheRun k cacheEmpty ops = Inr c \<and>
             cache_entries c = tl (setTokens ops) \<and>
             dom (cache_data c) = set (tl (setTokens ops)) \<and>
             hd (setTokens ops) \<notin> dom (cache_data c)"
    by (auto simp: cacheInv_def)
next
  assume "cache_data c0 t = Some d"
  then show "\<exists>c'. cacheVoteStatusSet k c0 t v = Inr c' \<and>
              cache_entries c' = cache_entries c0 \<and>
              dom (cache_data c') = dom (cache_data c0) \<and>
              cache_data c' = (cache_data c0)(t \<mapsto> d\<lparr>cd_voteStatus := Some v\<rparr>)"
    by (auto simp: cacheVoteStatusSet_present)
next
  assume "cache_data c0 t = Some d"
  then show "\<exists>c'. cacheProposalStatusSet k c0 t s = Inr c' \<and>
              cache_entries c' = cache_entries c0 \<and>
              dom (cache_data c') = dom (cache_data c0) \<and>
              cache_data c' = (cache_data c0)(t \<mapsto> d\<lparr>cd_proposalStatus := Some s\<rparr>)"
    by (auto simp: cacheProposalStatusSet_present)
qed

theorem result_cache_fifo_witness:
  "(0::nat) < 2 \<and>
   (\<exists>c. cacheRun 2 cacheEmpty
           [OpVoteStatusSet ''6b'' VoteStatusApproved, OpGet ''6b'',
            OpProposalStatusSet ''6c'' PropStatusRejected, OpGet ''6b'',
            OpVoteStatusSet ''6d'' VoteStatusApproved] = Inr c \<and>
        cache_entries c = [''6c'', ''6d''] \<and>
        dom (cache_data c) = {''6c'', ''6d''} \<and>
        ''6b'' \<notin> dom (cache_data c)) \<and>
   cacheProposalStatusSet 2
       \<lparr>cache_data = [''6b'' \<mapsto> \<lparr>cd_voteStatus = Some VoteStatusApproved,
                                   cd_proposalStatus = None\<rparr>],
        cache_entries = [''6b'']\<rparr> ''6b'' PropStatusApproved
     = Inr \<lparr>cache_data = [''6b'' \<mapsto> \<lparr>cd_voteStatus = Some VoteStatusApproved,
                                       cd_proposalStatus = Some PropStatusApproved\<rparr>],
            cache_entries = [''6b'']\<rparr>"
proof -
  let ?ops = "[OpVoteStatusSet ''6b'' VoteStatusApproved, OpGet ''6b'',
               OpProposalStatusSet ''6c'' PropStatusRejected, OpGet ''6b'',
               OpVoteStatusSet ''6d'' VoteStatusApproved]"
  let ?d = "\<lparr>cd_voteStatus = Some VoteStatusApproved, cd_proposalStatus = None\<rparr>"
  let ?c0 = "\<lparr>cache_data = [''6b'' \<mapsto> ?d], cache_entries = [''6b'']\<rparr>"
  have k: "(0::nat) < 2" by simp
  note t = result_cache_fifo
             [where k = 2 and ops = ?ops and ?c0.0 = ?c0 and t = "''6b''" and d = ?d
                and s = PropStatusApproved and v = VoteStatusApproved, OF k]
  have h: "distinct (setTokens ?ops) \<and> length (setTokens ?ops) = 2 + 1" by simp
  have h0: "cache_data ?c0 ''6b'' = Some ?d" by simp
  from t [THEN conjunct2, THEN conjunct1, THEN mp, OF h] obtain c where c: "cacheRun 2 cacheEmpty ?ops = Inr c"
    "cache_entries c = tl (setTokens ?ops)"
    "dom (cache_data c) = set (tl (setTokens ?ops))"
    "hd (setTokens ?ops) \<notin> dom (cache_data c)"
    by (elim conjE exE)
  from t [THEN conjunct2, THEN conjunct2, THEN mp, OF h0, THEN conjunct2] obtain c' where c': "cacheProposalStatusSet 2 ?c0 ''6b'' PropStatusApproved = Inr c'"
    "cache_entries c' = cache_entries ?c0"
    "cache_data c' = (cache_data ?c0)(''6b'' \<mapsto> ?d\<lparr>cd_proposalStatus := Some PropStatusApproved\<rparr>)"
    by (elim conjE exE)
  from c have "cacheRun 2 cacheEmpty ?ops = Inr c \<and> cache_entries c = [''6c'', ''6d''] \<and>
        dom (cache_data c) = {''6c'', ''6d''} \<and> ''6b'' \<notin> dom (cache_data c)"
    by simp
  then have e1: "\<exists>c. cacheRun 2 cacheEmpty ?ops = Inr c \<and> cache_entries c = [''6c'', ''6d''] \<and>
        dom (cache_data c) = {''6c'', ''6d''} \<and> ''6b'' \<notin> dom (cache_data c)"
    by (rule exI)
  from c' have e2: "cacheProposalStatusSet 2 ?c0 ''6b'' PropStatusApproved
     = Inr \<lparr>cache_data = [''6b'' \<mapsto> \<lparr>cd_voteStatus = Some VoteStatusApproved,
                                       cd_proposalStatus = Some PropStatusApproved\<rparr>],
            cache_entries = [''6b'']\<rparr>"
    by (cases c') simp
  from k e1 e2 show ?thesis by (intro conjI)
qed

end
